theory Spec2Isabelle
  imports Main
begin

section \<open>Strings\<close>

text \<open>
  Go strings are byte sequences; they are modelled as \<open>string\<close> (a list of 8-bit
  characters). \<open>strings.Split\<close> cuts at every occurrence of the separator, a single
  ASCII byte here.

  \<open>strings.TrimSpace\<close> removes leading and trailing white space as Unicode defines
  it: the runes for which \<open>unicode.IsSpace\<close> holds, listed below by their UTF-8
  encodings (tab to carriage return, space, U+0085, U+00A0, U+1680, U+2000 to U+200A,
  U+2028, U+2029, U+202F, U+205F, U+3000). The library decodes runes from the front and
  then from the back; a rune starts or ends the string exactly when its encoding is a
  prefix or a suffix of the bytes, and bytes that are not valid UTF-8 are not white
  space.

  \<open>strings.ToLower\<close> maps \<open>A..Z\<close> to \<open>a..z\<close> in a string of ASCII bytes. On a
  string with a byte outside ASCII the library maps every rune through the Unicode case
  tables, which are not part of this development: the definition below is the library's
  function on ASCII strings only, and the theorems that depend on it are stated for
  codes whose trimmed form is ASCII.
\<close>

definition isSpace :: "char \<Rightarrow> bool" where
  "isSpace c = (c = CHR 0x09 \<or> c = CHR 0x0A \<or> c = CHR 0x0B \<or> c = CHR 0x0C
                \<or> c = CHR 0x0D \<or> c = CHR '' '')"

definition isASCII :: "string \<Rightarrow> bool" where
  "isASCII s = list_all (\<lambda>c. (of_char c :: nat) < 128) s"

definition isUpper :: "char \<Rightarrow> bool" where
  "isUpper c = (65 \<le> (of_char c :: nat) \<and> (of_char c :: nat) \<le> 90)"

definition toLower :: "char \<Rightarrow> char" where
  "toLower c = (if isUpper c then char_of ((of_char c :: nat) + 32) else c)"

definition ToLower :: "string \<Rightarrow> string" where
  "ToLower s = map toLower s"


definition spaceRunes :: "string list" where
  "spaceRunes =
     [[CHR 0x09], [CHR 0x0A], [CHR 0x0B], [CHR 0x0C], [CHR 0x0D], [CHR 0x20],
      [CHR 0xC2, CHR 0x85], [CHR 0xC2, CHR 0xA0],
      [CHR 0xE1, CHR 0x9A, CHR 0x80],
      [CHR 0xE2, CHR 0x80, CHR 0x80], [CHR 0xE2, CHR 0x80, CHR 0x81],
      [CHR 0xE2, CHR 0x80, CHR 0x82], [CHR 0xE2, CHR 0x80, CHR 0x83],
      [CHR 0xE2, CHR 0x80, CHR 0x84], [CHR 0xE2, CHR 0x80, CHR 0x85],
      [CHR 0xE2, CHR 0x80, CHR 0x86], [CHR 0xE2, CHR 0x80, CHR 0x87],
      [CHR 0xE2, CHR 0x80, CHR 0x88], [CHR 0xE2, CHR 0x80, CHR 0x89],
      [CHR 0xE2, CHR 0x80, CHR 0x8A],
      [CHR 0xE2, CHR 0x80, CHR 0xA8], [CHR 0xE2, CHR 0x80, CHR 0xA9],
      [CHR 0xE2, CHR 0x80, CHR 0xAF],
      [CHR 0xE2, CHR 0x81, CHR 0x9F],
      [CHR 0xE3, CHR 0x80, CHR 0x80]]"

text \<open>Removing from the front of a string, as long as there is one, an occurrence of
  one of the byte sequences of a table.\<close>

function strip :: "string list \<Rightarrow> string \<Rightarrow> string" where
  "strip tbl s =
     (case find (\<lambda>q. q \<noteq> [] \<and> take (length q) s = q) tbl of
        None \<Rightarrow> s
      | Some q \<Rightarrow> strip tbl (drop (length q) s))"
  by pat_completeness auto
termination
proof (relation "measure (\<lambda>(tbl, s). length s)")
  show "wf (measure (\<lambda>(tbl, s). length s))" by simp
next
  fix tbl :: "string list" and s q :: string
  assume "find (\<lambda>q. q \<noteq> [] \<and> take (length q) s = q) tbl = Some q"
  then have q: "q \<noteq> []" "take (length q) s = q"
    by (auto simp: find_Some_iff)
  from q(2) have "length q \<le> length s"
    by (metis length_take min.cobounded1)
  with q(1) show "((tbl, drop (length q) s), (tbl, s)) \<in> measure (\<lambda>(tbl, s). length s)"
    by (cases q) auto
qed

declare strip.simps [simp del]

definition TrimSpace :: "string \<Rightarrow> string" where
  "TrimSpace s = rev (strip (map rev spaceRunes) (rev (strip spaceRunes s)))"

text \<open>\<open>strings.Split(s, "-")\<close>: the result always has at least one element.\<close>

fun Split :: "string \<Rightarrow> string list" where
  "Split [] = [[]]"
| "Split (c # cs) =
     (if c = CHR ''-'' then [] # Split cs
      else (case Split cs of [] \<Rightarrow> [[c]] | p # ps \<Rightarrow> (c # p) # ps))"

definition isDigit :: "char \<Rightarrow> bool" where
  "isDigit c = (48 \<le> (of_char c :: nat) \<and> (of_char c :: nat) \<le> 57)"

definition digitVal :: "char \<Rightarrow> int" where
  "digitVal c = int (of_char c) - 48"

text \<open>The value of a run of decimal digits, most significant digit first.\<close>

fun decimal :: "int \<Rightarrow> string \<Rightarrow> int" where
  "decimal acc [] = acc"
| "decimal acc (c # cs) = decimal (acc * 10 + digitVal c) cs"

text \<open>
  \<open>fmt.Sscanf(s, "%d", &number)\<close> of the Go standard library, as the format check
  uses it. The scanner skips leading white space (a line feed there is the error
  "unexpected newline"), accepts one optional sign, requires at least one decimal digit,
  reads the maximal run of digits and converts it as a 64-bit integer. Input left over
  after the digits is not an error. \<open>None\<close> stands for \<open>n \<noteq> 1 || err \<noteq> nil\<close>.
  The format check calls it on at most two bytes, where the white space the scanner
  skips can only be a single ASCII byte.
\<close>

fun skipSpace :: "string \<Rightarrow> string option" where
  "skipSpace [] = Some []"
| "skipSpace (c # cs) =
     (if c = CHR 0x0A then None
      else if isSpace c then skipSpace cs
      else Some (c # cs))"

definition scanSign :: "string \<Rightarrow> bool \<times> string" where
  "scanSign s = (case s of
       [] \<Rightarrow> (False, [])
     | c # cs \<Rightarrow> if c = CHR ''-'' then (True, cs)
                else if c = CHR ''+'' then (False, cs)
                else (False, s))"

definition Sscanf_d :: "string \<Rightarrow> int option" where
  "Sscanf_d s = (case skipSpace s of
       None \<Rightarrow> None
     | Some r \<Rightarrow>
        (let (neg, r1) = scanSign r;
             ds = takeWhile isDigit r1;
             v = (if neg then - decimal 0 ds else decimal 0 ds)
         in if ds = [] then None
            else if v < - (2 ^ 63) \<or> 2 ^ 63 - 1 < v then None
            else Some v))"

section \<open>Session codes\<close>

text \<open>\<open>Generator.IsValidFormat\<close> (internal/session/generator.go).\<close>

definition IsValidFormat :: "string \<Rightarrow> bool" where
  "IsValidFormat code =
     (if code = [] then False
      else let normalized = ToLower (TrimSpace code);
               parts = Split normalized
           in if length parts \<noteq> 3 then False
              else if list_ex (\<lambda>part. TrimSpace part = []) parts then False
              else let lastPart = parts ! 2
                   in if length lastPart = 0 \<or> length lastPart > 2 then False
                      else (case Sscanf_d lastPart of
                              None \<Rightarrow> False
                            | Some number \<Rightarrow>
                                if number < 1 \<or> number > 99 then False else True))"

text \<open>\<open>Generator.NormalizeCode\<close>.\<close>

definition NormalizeCode :: "string \<Rightarrow> string" where
  "NormalizeCode code = ToLower (TrimSpace code)"

text \<open>
  \<open>Validator.validateSessionCode\<close> (internal/jsonrpc/validator.go), the rule behind
  the \<open>sessioncode\<close> tag, applied to the string value of the field.
\<close>

definition validateSessionCode :: "string \<Rightarrow> bool" where
  "validateSessionCode code =
     (if code = [] then False
      else let normalized = ToLower (TrimSpace code);
               parts = Split normalized
           in if length parts \<noteq> 3 then False
              else if list_ex (\<lambda>part. TrimSpace part = []) parts then False
              else let lastPart = parts ! 2
                   in if length lastPart = 0 \<or> length lastPart > 2 then False
                      else (case Sscanf_d lastPart of
                              None \<Rightarrow> False
                            | Some number \<Rightarrow> number \<ge> 1 \<and> number \<le> 99))"






section \<open>Session manager\<close>

text \<open>
  Values of Go's \<open>interface{}\<close> that the code stores and passes on without looking
  inside (session data, request ids, results, error data); \<open>nil\<close> is \<open>None\<close> of
  \<open>gvalue option\<close>.
\<close>

datatype gvalue = GString string | GNumber int | GBool bool

text \<open>
  \<open>Session\<close>, \<open>SessionOptions\<close> and the sentinel errors (internal/session/types.go).
  Times and durations are integers (nanoseconds). \<open>InitialData\<close> may be a nil map.
\<close>

record Session =
  Code :: string
  CreatedAt :: int
  LastAccessed :: int
  Data :: "string \<rightharpoonup> gvalue"

record SessionOptions =
  MaxRetries :: int
  SessionTimeout :: int
  InitialData :: "(string \<rightharpoonup> gvalue) option"

datatype SessionError =
    ErrSessionNotFound
  | ErrSessionExpired
  | ErrInvalidSessionCode
  | ErrCodeGenerationFailed
  | ErrCreationCancelled

text \<open>
  \<open>Manager\<close>: the store and the configured options. The generator is stateless apart
  from its random source, and the lock and the channels of the background sweep carry no
  data. The map holds the sessions themselves; a session handed out by the manager is the
  stored one.
\<close>

record Manager =
  sessions :: "string \<rightharpoonup> Session"
  options :: SessionOptions

definition DefaultSessionOptions :: SessionOptions where
  "DefaultSessionOptions =
     \<lparr>MaxRetries = 10, SessionTimeout = 24 * 3600 * 1000000000, InitialData = Some Map.empty\<rparr>"

definition NewManager :: "SessionOptions option \<Rightarrow> Manager" where
  "NewManager opts =
     \<lparr>sessions = Map.empty,
      options = (case opts of None \<Rightarrow> DefaultSessionOptions | Some os \<Rightarrow> os)\<rparr>"






text \<open>
  The retry loop of \<open>Manager.CreateSession\<close>. \<open>gen attempt\<close> is the candidate that
  \<open>GenerateCode\<close> returns in the iteration \<open>attempt\<close>, and \<open>ctxDone attempt\<close> says
  whether the context is cancelled when that iteration polls it. The loop variables
  \<open>code\<close> and \<open>collision\<close> are passed along; the loop ends by \<open>break\<close>, by the
  cancellation return, or when \<open>attempt \<le> MaxRetries\<close> fails.
\<close>

datatype loop_exit = LoopEnd string bool | LoopCancelled

function createLoop ::
  "(nat \<Rightarrow> string) \<Rightarrow> (nat \<Rightarrow> bool) \<Rightarrow> (string \<rightharpoonup> Session) \<Rightarrow> int \<Rightarrow> int \<Rightarrow> string \<Rightarrow> bool
     \<Rightarrow> loop_exit" where
  "createLoop gen ctxDone store maxRetries attempt code collision =
     (if attempt \<le> maxRetries then
        (let code' = gen (nat attempt)
         in if \<not> IsValidFormat code'
            then createLoop gen ctxDone store maxRetries (attempt + 1) code' collision
            else let normalizedCode = NormalizeCode code';
                     collision' = (store normalizedCode \<noteq> None)
                 in if \<not> collision' then LoopEnd normalizedCode collision'
                    else if ctxDone (nat attempt) then LoopCancelled
                    else createLoop gen ctxDone store maxRetries (attempt + 1) code' collision')
      else LoopEnd code collision)"
  by pat_completeness auto
termination
  by (relation "measure (\<lambda>(gen, ctxDone, store, maxRetries, attempt, code, collision).
                 nat (maxRetries + 1 - attempt))") auto

text \<open>
  \<open>Manager.CreateSession\<close>: \<open>opts\<close> is the options argument (\<open>None\<close> for nil) and
  \<open>now\<close> the clock reading of the creation.
\<close>

definition CreateSession ::
  "Manager \<Rightarrow> (nat \<Rightarrow> string) \<Rightarrow> (nat \<Rightarrow> bool) \<Rightarrow> SessionOptions option \<Rightarrow> int
     \<Rightarrow> (SessionError + Session) \<times> Manager" where
  "CreateSession m gen ctxDone opts now =
     (let os = (case opts of None \<Rightarrow> options m | Some os \<Rightarrow> os)
      in (case createLoop gen ctxDone (sessions m) (MaxRetries os) 0 [] False of
            LoopCancelled \<Rightarrow> (Inl ErrCreationCancelled, m)
          | LoopEnd code collision \<Rightarrow>
              if collision then (Inl ErrCodeGenerationFailed, m)
              else let session = \<lparr>Code = code, CreatedAt = now, LastAccessed = now,
                                   Data = (case InitialData os of
                                             None \<Rightarrow> Map.empty | Some d \<Rightarrow> d)\<rparr>
                   in (Inr session, m\<lparr>sessions := (sessions m)(code \<mapsto> session)\<rparr>)))"

section \<open>Validation engine\<close>

text \<open>
  The validator of internal/jsonrpc/validator.go wraps the library
  \<open>go-playground/validator\<close>. The library sees a struct as its fields in declaration
  order, each with its JSON name, its value and the rules of its \<open>validate\<close> tag. The
  rules modelled are the ones the tags of this repository use, on fields of kind string
  and int. For one field the library evaluates the rules from left to right and reports
  the first that fails; for a struct it reports one such error for every failing field,
  in field order.
\<close>

datatype rule = Required | Eq string | Min nat | Max nat | Len nat | SessionCode | JsonrpcVersion

datatype fval = FString string | FInt int

record sfield =
  fname :: string
  fvalue :: fval
  frules :: "rule list"

text \<open>The library's \<open>FieldError\<close>: \<open>Field()\<close>, \<open>Tag()\<close>, \<open>Value()\<close>, \<open>Param()\<close>.\<close>

record FieldError =
  fe_Field :: string
  fe_Tag :: string
  fe_Value :: fval
  fe_Param :: string

fun showNat :: "nat \<Rightarrow> string" where
  "showNat n = (if n < 10 then [''0123456789'' ! n]
                else showNat (n div 10) @ [''0123456789'' ! (n mod 10)])"

declare showNat.simps [simp del]

definition showInt :: "int \<Rightarrow> string" where
  "showInt i = (if i < 0 then ''-'' @ showNat (nat (- i)) else showNat (nat i))"

text \<open>\<open>fmt.Sprintf("%v", value)\<close> for a field value.\<close>

definition showVal :: "fval \<Rightarrow> string" where
  "showVal v = (case v of FString s \<Rightarrow> s | FInt i \<Rightarrow> showInt i)"

definition Version :: string where
  "Version = ''2.0''"

text \<open>\<open>Validator.validateJSONRPCVersion\<close>.\<close>

definition validateJSONRPCVersion :: "string \<Rightarrow> bool" where
  "validateJSONRPCVersion version = (version = Version)"

text \<open>
  \<open>utf8.RuneCountInString\<close>: the number of runes of a string, where a byte that does
  not start a valid UTF-8 sequence counts as one rune. \<open>runeWidth\<close> is the number of
  bytes of the first rune.
\<close>

definition isCont :: "char \<Rightarrow> bool" where
  "isCont c = (128 \<le> (of_char c :: nat) \<and> (of_char c :: nat) \<le> 191)"

definition inRange :: "nat \<Rightarrow> nat \<Rightarrow> char \<Rightarrow> bool" where
  "inRange lo hi c = (lo \<le> (of_char c :: nat) \<and> (of_char c :: nat) \<le> hi)"

definition runeWidth :: "string \<Rightarrow> nat" where
  "runeWidth s =
     (case s of
        [] \<Rightarrow> 0
      | b0 # rest \<Rightarrow>
         (if inRange 0 127 b0 then 1
          else if inRange 194 223 b0 then
            (case rest of b1 # r1 \<Rightarrow> if isCont b1 then 2 else 1 | [] \<Rightarrow> 1)
          else if inRange 224 239 b0 then
            (case rest of
               b1 # b2 # r2 \<Rightarrow>
                 if (if b0 = CHR 0xE0 then inRange 160 191 b1
                     else if b0 = CHR 0xED then inRange 128 159 b1
                     else isCont b1) \<and> isCont b2
                 then 3 else 1
             | _ \<Rightarrow> 1)
          else if inRange 240 244 b0 then
            (case rest of
               b1 # b2 # b3 # r3 \<Rightarrow>
                 if (if b0 = CHR 0xF0 then inRange 144 191 b1
                     else if b0 = CHR 0xF4 then inRange 128 143 b1
                     else isCont b1) \<and> isCont b2 \<and> isCont b3
                 then 4 else 1
             | _ \<Rightarrow> 1)
          else 1))"

function RuneCount :: "string \<Rightarrow> nat" where
  "RuneCount s = (if s = [] then 0 else Suc (RuneCount (drop (runeWidth s) s)))"
  by pat_completeness auto
termination
proof (relation "measure length")
  show "wf (measure length)" by simp
next
  fix s :: string
  assume "s \<noteq> []"
  then obtain b0 rest where s: "s = b0 # rest" by (cases s) auto
  have "0 < runeWidth s"
    unfolding s runeWidth_def by (simp split: list.splits)
  with \<open>s \<noteq> []\<close> show "(drop (runeWidth s) s, s) \<in> measure length" by simp
qed

declare RuneCount.simps [simp del]

text \<open>
  Whether a value satisfies a rule. \<open>required\<close> fails on the zero value; \<open>min\<close>,
  \<open>max\<close> and \<open>len\<close> count the runes of a string and compare an int by value;
  \<open>eq\<close> compares a string with the parameter, and an int with the number of which
  the parameter is the decimal numeral (the parameters of the rules are taken to be
  written that way, as the tags of the repository are); the two custom rules apply the
  functions registered for them to the string value of the field.
\<close>

fun rule_ok :: "rule \<Rightarrow> fval \<Rightarrow> bool" where
  "rule_ok Required (FString s) = (s \<noteq> [])"
| "rule_ok Required (FInt i) = (i \<noteq> 0)"
| "rule_ok (Eq p) (FString s) = (s = p)"
| "rule_ok (Eq p) (FInt i) = (showInt i = p)"
| "rule_ok (Min n) (FString s) = (n \<le> RuneCount s)"
| "rule_ok (Min n) (FInt i) = (int n \<le> i)"
| "rule_ok (Max n) (FString s) = (RuneCount s \<le> n)"
| "rule_ok (Max n) (FInt i) = (i \<le> int n)"
| "rule_ok (Len n) (FString s) = (RuneCount s = n)"
| "rule_ok (Len n) (FInt i) = (i = int n)"
| "rule_ok SessionCode (FString s) = validateSessionCode s"
| "rule_ok SessionCode (FInt i) = validateSessionCode []"
| "rule_ok JsonrpcVersion (FString s) = validateJSONRPCVersion s"
| "rule_ok JsonrpcVersion (FInt i) = validateJSONRPCVersion []"

fun tagOf :: "rule \<Rightarrow> string" where
  "tagOf Required = ''required''"
| "tagOf (Eq p) = ''eq''"
| "tagOf (Min n) = ''min''"
| "tagOf (Max n) = ''max''"
| "tagOf (Len n) = ''len''"
| "tagOf SessionCode = ''sessioncode''"
| "tagOf JsonrpcVersion = ''jsonrpcversion''"

fun paramOf :: "rule \<Rightarrow> string" where
  "paramOf (Eq p) = p"
| "paramOf (Min n) = showNat n"
| "paramOf (Max n) = showNat n"
| "paramOf (Len n) = showNat n"
| "paramOf r = []"

text \<open>The library on one field (\<open>validate.Var\<close>) and on a struct (\<open>validate.Struct\<close>):
  the list of field errors, empty when the value is valid.\<close>

definition lib_Var :: "string \<Rightarrow> fval \<Rightarrow> rule list \<Rightarrow> FieldError list" where
  "lib_Var name v rules =
     (case find (\<lambda>r. \<not> rule_ok r v) rules of
        None \<Rightarrow> []
      | Some r \<Rightarrow> [\<lparr>fe_Field = name, fe_Tag = tagOf r, fe_Value = v, fe_Param = paramOf r\<rparr>])"

definition lib_Struct :: "sfield list \<Rightarrow> FieldError list" where
  "lib_Struct s = concat (map (\<lambda>f. lib_Var (fname f) (fvalue f) (frules f)) s)"

text \<open>\<open>ValidationError\<close> and the errors a validation returns: \<open>ValidationErrors\<close> or
  another error, of which only the message matters.\<close>

record ValidationError =
  Field :: string
  Tag :: string
  Value :: fval
  Param :: string
  Message :: string

datatype verror = ValidationErrors "ValidationError list" | OtherError string

text \<open>\<open>Validator.buildErrorMessage\<close>. The kind of the field decides between the two
  wordings of \<open>min\<close> and \<open>max\<close>; \<open>quoted\<close> puts a text between single quotes.\<close>

definition isStringKind :: "fval \<Rightarrow> bool" where
  "isStringKind v = (case v of FString s \<Rightarrow> True | FInt i \<Rightarrow> False)"

definition quoted :: "string \<Rightarrow> string" where
  "quoted s = [CHR 0x27] @ s @ [CHR 0x27]"

definition buildErrorMessage :: "FieldError \<Rightarrow> string" where
  "buildErrorMessage validationErr =
     (let field = fe_Field validationErr; tag = fe_Tag validationErr;
          param = fe_Param validationErr; v = fe_Value validationErr;
          val = showVal v; n = showNat (length (showVal v))
      in if tag = ''required'' then ''field '' @ quoted field @ '' is required''
         else if tag = ''eq''
           then ''field '' @ quoted field @ '' must equal '' @ quoted param @ '', got '' @ quoted val
         else if tag = ''min'' then
           (if isStringKind v
            then ''field '' @ quoted field @ '' must be at least '' @ param
                 @ '' characters long, got '' @ n
            else ''field '' @ quoted field @ '' must be at least '' @ param @ '', got ''
                 @ quoted val)
         else if tag = ''max'' then
           (if isStringKind v
            then ''field '' @ quoted field @ '' must be at most '' @ param
                 @ '' characters long, got '' @ n
            else ''field '' @ quoted field @ '' must be at most '' @ param @ '', got ''
                 @ quoted val)
         else if tag = ''len''
           then ''field '' @ quoted field @ '' must be exactly '' @ param @ '' in length, got '' @ n
         else if tag = ''oneof''
           then ''field '' @ quoted field @ '' must be one of ['' @ param @ ''], got '' @ quoted val
         else if tag = ''email''
           then ''field '' @ quoted field @ '' must be a valid email address, got '' @ quoted val
         else if tag = ''url''
           then ''field '' @ quoted field @ '' must be a valid URL, got '' @ quoted val
         else if tag = ''numeric''
           then ''field '' @ quoted field @ '' must be numeric, got '' @ quoted val
         else if tag = ''alpha''
           then ''field '' @ quoted field @ '' must contain only alphabetic characters, got ''
                @ quoted val
         else if tag = ''alphanum''
           then ''field '' @ quoted field @ '' must contain only alphanumeric characters, got ''
                @ quoted val
         else if tag = ''sessioncode''
           then ''field '' @ quoted field @ '' must be a valid session code in format ''
                @ quoted ''adjective-noun-number'' @ '' (e.g., '' @ quoted ''happy-panda-42''
                @ ''), got '' @ quoted val
         else if tag = ''jsonrpcversion''
           then ''field '' @ quoted field @ '' must be exactly '' @ quoted ''2.0''
                @ '' for JSON-RPC 2.0 compliance, got '' @ quoted val
         else if tag = ''gt''
           then ''field '' @ quoted field @ '' must be greater than '' @ param @ '', got ''
                @ quoted val
         else if tag = ''gte''
           then ''field '' @ quoted field @ '' must be greater than or equal to '' @ param
                @ '', got '' @ quoted val
         else if tag = ''lt''
           then ''field '' @ quoted field @ '' must be less than '' @ param @ '', got ''
                @ quoted val
         else if tag = ''lte''
           then ''field '' @ quoted field @ '' must be less than or equal to '' @ param
                @ '', got '' @ quoted val
         else if tag = ''dive''
           then ''field '' @ quoted field @ '' contains invalid nested values''
         else ''field '' @ quoted field @ '' failed validation rule '' @ quoted tag
              @ '' with value '' @ quoted val)"

text \<open>
  \<open>Validator.Validate\<close> on a struct, given by its fields: the loop over the library's
  errors converts the first one and breaks. \<open>None\<close> is the nil error.
\<close>

definition customErr :: "string \<Rightarrow> FieldError \<Rightarrow> ValidationError" where
  "customErr name validationErr =
     \<lparr>Field = name, Tag = fe_Tag validationErr, Value = fe_Value validationErr,
      Param = fe_Param validationErr, Message = buildErrorMessage validationErr\<rparr>"

definition Validate :: "sfield list \<Rightarrow> verror option" where
  "Validate s =
     (case lib_Struct s of
        [] \<Rightarrow> None
      | validationErr # rest \<Rightarrow>
          Some (ValidationErrors [customErr (fe_Field validationErr) validationErr]))"

text \<open>\<open>Validator.ValidateVar\<close>: one value against a list of rules; the error is
  reported for the generic field name \<open>value\<close>, the library's name for it being empty.\<close>

definition ValidateVar :: "fval \<Rightarrow> rule list \<Rightarrow> verror option" where
  "ValidateVar field rules =
     (case lib_Var [] field rules of
        [] \<Rightarrow> None
      | validationErr # rest \<Rightarrow> Some (ValidationErrors [customErr ''value'' validationErr]))"

text \<open>\<open>ValidationErrors.Error\<close> and the message of any validation error.\<close>

fun joinWith :: "string \<Rightarrow> string list \<Rightarrow> string" where
  "joinWith sep [] = []"
| "joinWith sep [x] = x"
| "joinWith sep (x # y # ys) = x @ sep @ joinWith sep (y # ys)"

definition errorString :: "verror \<Rightarrow> string" where
  "errorString err =
     (case err of
        ValidationErrors es \<Rightarrow>
          if es = [] then ''validation errors''
          else ''validation failed: '' @ joinWith ''; '' (map Message es)
      | OtherError msg \<Rightarrow> msg)"

section \<open>JSON-RPC messages\<close>

text \<open>
  \<open>Request\<close>, \<open>Response\<close> and \<open>Error\<close> (internal/jsonrpc/types.go). The fields
  \<open>JSONRPCVersion\<close>, \<open>ID\<close>, \<open>Code\<close>, \<open>Message\<close> and \<open>Data\<close> occur in several
  structs and carry the struct's name as a prefix here. \<open>Params\<close> is the raw JSON
  text. A handler's result may be a struct with validation tags of its own, which is
  given by its fields.
\<close>

datatype result_value = Plain gvalue | Struct "sfield list"

record Request =
  req_JSONRPCVersion :: string
  Method :: string
  Params :: "string option"
  req_ID :: "gvalue option"

record Error =
  err_Code :: int
  err_Message :: string
  err_Data :: "gvalue option"

record Response =
  resp_JSONRPCVersion :: string
  Result :: "result_value option"
  resp_Error :: "Error option"
  resp_ID :: "gvalue option"

definition IsNotification :: "Request \<Rightarrow> bool" where
  "IsNotification r = (req_ID r = None)"

definition ParseError :: int where "ParseError = - 32700"
definition InvalidRequest :: int where "InvalidRequest = - 32600"
definition MethodNotFound :: int where "MethodNotFound = - 32601"
definition InvalidParams :: int where "InvalidParams = - 32602"
definition InternalError :: int where "InternalError = - 32603"

definition ErrParse :: Error where
  "ErrParse = \<lparr>err_Code = ParseError, err_Message = ''Parse error'', err_Data = None\<rparr>"

definition ErrMethodNotFound :: Error where
  "ErrMethodNotFound =
     \<lparr>err_Code = MethodNotFound, err_Message = ''Method not found'', err_Data = None\<rparr>"

definition ErrInternal :: Error where
  "ErrInternal = \<lparr>err_Code = InternalError, err_Message = ''Internal error'', err_Data = None\<rparr>"

definition NewErrorWithData :: "int \<Rightarrow> string \<Rightarrow> gvalue option \<Rightarrow> Error" where
  "NewErrorWithData code message d = \<lparr>err_Code = code, err_Message = message, err_Data = d\<rparr>"

definition NewResponse :: "result_value option \<Rightarrow> gvalue option \<Rightarrow> Response" where
  "NewResponse result ident =
     \<lparr>resp_JSONRPCVersion = Version, Result = result, resp_Error = None, resp_ID = ident\<rparr>"

definition NewErrorResponse :: "Error \<Rightarrow> gvalue option \<Rightarrow> Response" where
  "NewErrorResponse err ident =
     \<lparr>resp_JSONRPCVersion = Version, Result = None, resp_Error = Some err, resp_ID = ident\<rparr>"

text \<open>
  The structs as the validation library sees them, from their \<open>validate\<close> tags:
  \<open>required,eq=2.0\<close> on \<open>jsonrpc\<close>, \<open>required,min=1\<close> on \<open>method\<close>,
  \<open>required\<close> on \<open>code\<close>, \<open>required,min=1\<close> on \<open>message\<close>. Fields without a
  tag have no rules; the library descends into a result or an error that is a struct.
\<close>

definition Request_fields :: "Request \<Rightarrow> sfield list" where
  "Request_fields r =
     [\<lparr>fname = ''jsonrpc'', fvalue = FString (req_JSONRPCVersion r), frules = [Required, Eq ''2.0'']\<rparr>,
      \<lparr>fname = ''method'', fvalue = FString (Method r), frules = [Required, Min 1]\<rparr>]"

definition Error_fields :: "Error \<Rightarrow> sfield list" where
  "Error_fields e =
     [\<lparr>fname = ''code'', fvalue = FInt (err_Code e), frules = [Required]\<rparr>,
      \<lparr>fname = ''message'', fvalue = FString (err_Message e), frules = [Required, Min 1]\<rparr>]"

definition Response_fields :: "Response \<Rightarrow> sfield list" where
  "Response_fields r =
     [\<lparr>fname = ''jsonrpc'', fvalue = FString (resp_JSONRPCVersion r),
       frules = [Required, Eq ''2.0'']\<rparr>]
     @ (case Result r of Some (Struct fs) \<Rightarrow> fs | _ \<Rightarrow> [])
     @ (case resp_Error r of Some e \<Rightarrow> Error_fields e | None \<Rightarrow> [])"

text \<open>\<open>Validator.ValidateRequest\<close> and \<open>Validator.ValidateResponse\<close>, for a request
  and a response that are not nil.\<close>

definition ValidateRequest :: "Request \<Rightarrow> verror option" where
  "ValidateRequest req = Validate (Request_fields req)"

definition ValidateResponse :: "Response \<Rightarrow> verror option" where
  "ValidateResponse resp = Validate (Response_fields resp)"

section \<open>Router\<close>

text \<open>
  A handler is a function of the raw params that returns a result and an error, or
  panics with a value of which the text is kept. A params schema is a struct type,
  given as a \<open>reflect.Type\<close>: for every request a new instance is made, and the
  schema is what \<open>json.Unmarshal\<close> makes of the raw params for it, an error text or
  the populated struct. (A schema given as a pointer to a value is filled in place and
  shared by all requests; that use is not covered.) A result schema that is a type
  says for a result whether it is assignable to it, and if not gives the names of the
  type of the result and of the schema type; for a schema that is not a type every
  result passes.
\<close>

datatype handler_outcome = Returned "result_value option" "string option" | Panicked string

type_synonym HandlerFunc = "string option \<Rightarrow> handler_outcome"

record MethodInfo =
  Handler :: HandlerFunc
  ParamsSchema :: "(string \<Rightarrow> string + sfield list) option"
  ResultSchema :: "(result_value \<Rightarrow> (string \<times> string) option) option"
  Description :: string
  ValidateParams :: bool
  ValidateResult :: bool

record Router =
  methods :: "string \<rightharpoonup> MethodInfo"

definition NewRouter :: Router where
  "NewRouter = \<lparr>methods = Map.empty\<rparr>"

text \<open>
  \<open>Router.RegisterMethod\<close> and \<open>Router.UnregisterMethod\<close>: the returned error
  (\<open>None\<close> for nil) and the router afterwards. \<open>handler\<close> and \<open>info\<close> may be nil.
\<close>

definition emptyMethodInfo :: "HandlerFunc \<Rightarrow> MethodInfo" where
  "emptyMethodInfo h =
     \<lparr>Handler = h, ParamsSchema = None, ResultSchema = None, Description = [],
      ValidateParams = False, ValidateResult = False\<rparr>"

definition RegisterMethod ::
  "Router \<Rightarrow> string \<Rightarrow> HandlerFunc option \<Rightarrow> MethodInfo option \<Rightarrow> string option \<times> Router" where
  "RegisterMethod r methodName handler info =
     (if methodName = [] then (Some ''method name cannot be empty'', r)
      else case handler of
        None \<Rightarrow> (Some ''handler cannot be nil'', r)
      | Some h \<Rightarrow>
         (case ValidateVar (FString methodName) [Required, Min 1] of
            Some err \<Rightarrow> (Some (''invalid method name: '' @ errorString err), r)
          | None \<Rightarrow>
             if methods r methodName \<noteq> None
             then (Some (''method '' @ [CHR 0x27] @ methodName @ [CHR 0x27]
                         @ '' is already registered''), r)
             else let info' = (case info of None \<Rightarrow> emptyMethodInfo h
                                | Some i \<Rightarrow> i\<lparr>Handler := h\<rparr>)
                  in (None, r\<lparr>methods := (methods r)(methodName \<mapsto> info')\<rparr>)))"

definition UnregisterMethod :: "Router \<Rightarrow> string \<Rightarrow> string option \<times> Router" where
  "UnregisterMethod r methodName =
     (if methods r methodName = None
      then (Some (''method '' @ [CHR 0x27] @ methodName @ [CHR 0x27] @ '' is not registered''), r)
      else (None, r\<lparr>methods := (methods r)(methodName := None)\<rparr>))"

text \<open>
  \<open>Router.validateParams\<close>, \<open>Router.validateResult\<close>, \<open>Router.callHandler\<close>.
  A result that is not a struct is a string, an int or a bool, and the library refuses
  it with an error that names its type.
\<close>

definition validateParams ::
  "string option \<Rightarrow> (string \<Rightarrow> string + sfield list) \<Rightarrow> verror option" where
  "validateParams params schema =
     (case params of
        None \<Rightarrow> None
      | Some raw \<Rightarrow>
         (case schema raw of
            Inl msg \<Rightarrow> Some (OtherError (''failed to parse params: '' @ msg))
          | Inr instance \<Rightarrow> Validate instance))"

definition typeName :: "gvalue \<Rightarrow> string" where
  "typeName v = (case v of GString s \<Rightarrow> ''string'' | GNumber i \<Rightarrow> ''int'' | GBool b \<Rightarrow> ''bool'')"

definition validateResult ::
  "result_value option \<Rightarrow> (result_value \<Rightarrow> (string \<times> string) option) \<Rightarrow> verror option" where
  "validateResult result schema =
     (case result of
        None \<Rightarrow> None
      | Some res \<Rightarrow>
         (case schema res of
            Some (resultType, schemaType) \<Rightarrow>
              Some (OtherError (''result type '' @ resultType
                                @ '' is not assignable to schema type '' @ schemaType))
          | None \<Rightarrow>
             (case res of
                Struct fs \<Rightarrow> Validate fs
              | Plain v \<Rightarrow> Some (OtherError (''validator: (nil '' @ typeName v @ '')'')))))"

definition callHandler :: "HandlerFunc \<Rightarrow> string option \<Rightarrow> result_value option \<times> string option" where
  "callHandler handler params =
     (case handler params of
        Returned result err \<Rightarrow> (result, err)
      | Panicked v \<Rightarrow> (None, Some (''handler panic: '' @ v)))"

text \<open>The three constructors of error objects.\<close>

definition createValidationError :: "verror \<Rightarrow> Error" where
  "createValidationError err =
     (case err of
        ValidationErrors (e # es) \<Rightarrow>
          NewErrorWithData InvalidRequest ''Request validation failed'' (Some (GString (Message e)))
      | _ \<Rightarrow> NewErrorWithData InvalidRequest ''Request validation failed''
                (Some (GString (errorString err))))"

definition createParamsError :: "verror \<Rightarrow> Error" where
  "createParamsError err =
     (case err of
        ValidationErrors (e # es) \<Rightarrow>
          NewErrorWithData InvalidParams ''Parameter validation failed'' (Some (GString (Message e)))
      | _ \<Rightarrow> NewErrorWithData InvalidParams ''Parameter validation failed''
                (Some (GString (errorString err))))"

definition createInternalError :: "string \<Rightarrow> Error" where
  "createInternalError msg = NewErrorWithData InternalError ''Internal error'' (Some (GString msg))"

text \<open>
  \<open>Router.routeNotification\<close>: what the call does is to run the handler, or not; the
  value says which, and \<open>Route\<close> drops it.
\<close>

definition routeNotification :: "Router \<Rightarrow> Request \<Rightarrow> (result_value option \<times> string option) option" where
  "routeNotification r request =
     (case methods r (Method request) of
        None \<Rightarrow> None
      | Some methodInfo \<Rightarrow>
          if ValidateParams methodInfo \<and> ParamsSchema methodInfo \<noteq> None
             \<and> validateParams (Params request) (the (ParamsSchema methodInfo)) \<noteq> None
          then None
          else Some (callHandler (Handler methodInfo) (Params request)))"

text \<open>\<open>Router.Route\<close>, for a request that is not nil; \<open>None\<close> is the nil response.\<close>

definition Route :: "Router \<Rightarrow> Request \<Rightarrow> Response option" where
  "Route r request =
     (case ValidateRequest request of
        Some err \<Rightarrow> Some (NewErrorResponse (createValidationError err) (req_ID request))
      | None \<Rightarrow>
         if IsNotification request
         then (let ignored = routeNotification r request in None)
         else (case methods r (Method request) of
            None \<Rightarrow> Some (NewErrorResponse ErrMethodNotFound (req_ID request))
          | Some methodInfo \<Rightarrow>
             (case (if ValidateParams methodInfo \<and> ParamsSchema methodInfo \<noteq> None
                    then validateParams (Params request) (the (ParamsSchema methodInfo))
                    else None) of
                Some err \<Rightarrow> Some (NewErrorResponse (createParamsError err) (req_ID request))
              | None \<Rightarrow>
                 (case callHandler (Handler methodInfo) (Params request) of
                    (result, Some err) \<Rightarrow>
                      Some (NewErrorResponse (createInternalError err) (req_ID request))
                  | (result, None) \<Rightarrow>
                     (case (if ValidateResult methodInfo \<and> ResultSchema methodInfo \<noteq> None
                            then validateResult result (the (ResultSchema methodInfo))
                            else None) of
                        Some err \<Rightarrow>
                          Some (NewErrorResponse
                                  (createInternalError (''result validation failed: '' @ errorString err))
                                  (req_ID request))
                      | None \<Rightarrow>
                         (let response = NewResponse result (req_ID request)
                          in case ValidateResponse response of
                               Some err \<Rightarrow>
                                 Some (NewErrorResponse
                                         (createInternalError
                                            (''response validation failed: '' @ errorString err))
                                         (req_ID request))
                             | None \<Rightarrow> Some response))))))"

text \<open>
  \<open>Router.RouteJSON\<close>. The JSON decoder and encoder are parameters: \<open>unmarshal\<close>
  gives the request the bytes denote, or \<open>None\<close> when \<open>json.Unmarshal\<close> fails, and
  \<open>marshal\<close> gives the bytes of a response, or \<open>None\<close> when \<open>json.Marshal\<close> fails.
  The result is the pair of the returned bytes and the returned error.
\<close>

definition RouteJSON ::
  "(string \<Rightarrow> Request option) \<Rightarrow> (Response \<Rightarrow> string option) \<Rightarrow> Router \<Rightarrow> string
     \<Rightarrow> string option \<times> string option" where
  "RouteJSON unmarshal marshal r requestJSON =
     (case unmarshal requestJSON of
        None \<Rightarrow>
          (case marshal (NewErrorResponse ErrParse None) of
             Some bytes \<Rightarrow> (Some bytes, None)
           | None \<Rightarrow> (None, Some ''json: marshal error''))
      | Some request \<Rightarrow>
          (case Route r request of
             None \<Rightarrow> (None, None)
           | Some response \<Rightarrow>
               (case marshal response of
                  Some responseJSON \<Rightarrow> (Some responseJSON, None)
                | None \<Rightarrow> (marshal (NewErrorResponse ErrInternal (req_ID request)), None))))"

text \<open>
  The rules a struct value violates, each with its field, in the order the engine
  evaluates them (fields in declaration order, the rules of a field from left to right),
  and the library's description of one such violation.
\<close>

definition violations :: "sfield list \<Rightarrow> (sfield \<times> rule) list" where
  "violations s =
     concat (map (\<lambda>f. map (\<lambda>r. (f, r)) (filter (\<lambda>r. \<not> rule_ok r (fvalue f)) (frules f))) s)"

definition violationError :: "sfield \<times> rule \<Rightarrow> FieldError" where
  "violationError fr =
     \<lparr>fe_Field = fname (fst fr), fe_Tag = tagOf (snd fr), fe_Value = fvalue (fst fr),
      fe_Param = paramOf (snd fr)\<rparr>"

section \<open>Connection hub\<close>

text \<open>
  A Go channel of messages: the buffered messages, oldest first, the capacity and
  whether the channel has been closed. The three operations are the ones the hub and the
  clients use, each inside a \<open>select\<close> with a \<open>default\<close> branch or as a plain
  \<open>close\<close>: a send that does not wait (it panics on a closed channel, succeeds when
  the buffer has room and otherwise falls through to \<open>default\<close>), a receive that does
  not wait (it succeeds when a message is buffered or the channel is closed), and
  \<open>close\<close>, which panics on a closed channel.
\<close>

type_synonym message = string

record chan =
  buf :: "message list"
  cap :: nat
  closed :: bool

datatype fault = Panic string | Blocked | NotAnIteration

datatype send_result = Sent chan | Full | SendOnClosed

definition trySend :: "chan \<Rightarrow> message \<Rightarrow> send_result" where
  "trySend ch msg =
     (if closed ch then SendOnClosed
      else if length (buf ch) < cap ch then Sent (ch\<lparr>buf := buf ch @ [msg]\<rparr>)
      else Full)"

datatype recv_result = Received chan | NotReady

definition tryRecv :: "chan \<Rightarrow> recv_result" where
  "tryRecv ch =
     (case buf ch of
        m # ms \<Rightarrow> Received (ch\<lparr>buf := ms\<rparr>)
      | [] \<Rightarrow> if closed ch then Received ch else NotReady)"

definition closeChan :: "chan \<Rightarrow> chan option" where
  "closeChan ch = (if closed ch then None else Some (ch\<lparr>closed := True\<rparr>))"

text \<open>
  \<open>Client\<close> (internal/websocket/hub.go): a client is a pointer, \<open>cid\<close> is its
  identity, and \<open>sessionCode\<close> never changes. Its \<open>send\<close> channel is shared with
  the hub and with other goroutines, so the channels are kept in a store beside the two
  registries of the \<open>Hub\<close>; the router of a client is passed to the function that
  uses it. The field \<open>sessions\<close> of the hub is \<open>hub_sessions\<close> here.
\<close>

record Client =
  cid :: nat
  sessionCode :: string

record Hub =
  clients :: "Client set"
  hub_sessions :: "string \<rightharpoonup> Client"
  send :: "Client \<Rightarrow> chan"

text \<open>\<open>NewHub\<close>, with the channel of every client as \<open>NewClient\<close> makes it:
  empty, open, with room for 256 messages.\<close>

definition NewHub :: Hub where
  "NewHub = \<lparr>clients = {}, hub_sessions = Map.empty,
             send = (\<lambda>c. \<lparr>buf = [], cap = 256, closed = False\<rparr>)\<rparr>"

text \<open>\<open>Hub.registerClient\<close> and \<open>Hub.unregisterClient\<close>.\<close>

definition registerClient :: "Hub \<Rightarrow> Client \<Rightarrow> Hub" where
  "registerClient h client =
     h\<lparr>clients := insert client (clients h),
       hub_sessions := (hub_sessions h)(sessionCode client \<mapsto> client)\<rparr>"

definition unregisterClient :: "Hub \<Rightarrow> Client \<Rightarrow> fault + Hub" where
  "unregisterClient h client =
     (if client \<in> clients h then
        (let h' = h\<lparr>clients := clients h - {client},
                    hub_sessions := (hub_sessions h)(sessionCode client := None)\<rparr>
         in case tryRecv (send h client) of
              Received ch \<Rightarrow> Inr (h'\<lparr>send := (send h)(client := ch)\<rparr>)
            | NotReady \<Rightarrow>
               (case closeChan (send h client) of
                  None \<Rightarrow> Inl (Panic ''close of closed channel'')
                | Some ch \<Rightarrow> Inr (h'\<lparr>send := (send h)(client := ch)\<rparr>)))
      else Inr h)"

text \<open>
  The requests that reach the event loop through the channels \<open>register\<close>,
  \<open>unregister\<close> and \<open>broadcast\<close>. The order in which a \<open>range\<close> over the
  client map delivers the clients is not determined by the program; a broadcast carries
  it beside the message. It has to list every registered client exactly once
  (\<open>isSnapshot\<close>); with any other list the request describes no run of the code, and
  the result says so.
\<close>

datatype request = Register Client | Unregister Client | Broadcast message "Client list"

definition isSnapshot :: "Hub \<Rightarrow> Client list \<Rightarrow> bool" where
  "isSnapshot h order \<longleftrightarrow> distinct order \<and> set order = clients h"

text \<open>
  \<open>Hub.broadcastMessage\<close>, run by the event loop: the snapshot of the registered
  clients, then one send that does not wait for each. For a full channel the loop closes
  it and calls \<open>UnregisterClient\<close>, which hands the client to the channel
  \<open>unregister\<close>; the only receiver of that channel is the event loop, which is
  running this very call, so the hand-off never completes.
\<close>

fun broadcastLoop :: "Hub \<Rightarrow> Client list \<Rightarrow> message \<Rightarrow> fault + Hub" where
  "broadcastLoop h [] msg = Inr h"
| "broadcastLoop h (client # cs) msg =
     (case trySend (send h client) msg of
        Sent ch \<Rightarrow> broadcastLoop (h\<lparr>send := (send h)(client := ch)\<rparr>) cs msg
      | SendOnClosed \<Rightarrow> Inl (Panic ''send on closed channel'')
      | Full \<Rightarrow>
         (case closeChan (send h client) of
            None \<Rightarrow> Inl (Panic ''close of closed channel'')
          | Some ch \<Rightarrow> Inl Blocked))"

definition broadcastMessage :: "Hub \<Rightarrow> Client list \<Rightarrow> message \<Rightarrow> fault + Hub" where
  "broadcastMessage h order msg =
     (if isSnapshot h order then broadcastLoop h order msg else Inl NotAnIteration)"

text \<open>
  \<open>Hub.Run\<close>: the event loop, over the requests it receives. The Go loop never
  returns; the value is the state after the given requests, or the fault that stops the
  loop.
\<close>

fun Run :: "Hub \<Rightarrow> request list \<Rightarrow> fault + Hub" where
  "Run h [] = Inr h"
| "Run h (Register client # rs) = Run (registerClient h client) rs"
| "Run h (Unregister client # rs) =
     (case unregisterClient h client of Inl f \<Rightarrow> Inl f | Inr h' \<Rightarrow> Run h' rs)"
| "Run h (Broadcast msg order # rs) =
     (case broadcastMessage h order msg of Inl f \<Rightarrow> Inl f | Inr h' \<Rightarrow> Run h' rs)"

text \<open>
  \<open>Hub.SendToSession\<close>, called from any goroutine: the hub afterwards and the
  requests the call hands to the event loop.
\<close>

definition SendToSession :: "Hub \<Rightarrow> string \<Rightarrow> message \<Rightarrow> fault + (Hub \<times> request list)" where
  "SendToSession h code msg =
     (case hub_sessions h code of
        None \<Rightarrow> Inr (h, [])
      | Some client \<Rightarrow>
         (case trySend (send h client) msg of
            Sent ch \<Rightarrow> Inr (h\<lparr>send := (send h)(client := ch)\<rparr>, [])
          | SendOnClosed \<Rightarrow> Inl (Panic ''send on closed channel'')
          | Full \<Rightarrow>
             (case closeChan (send h client) of
                None \<Rightarrow> Inl (Panic ''close of closed channel'')
              | Some ch \<Rightarrow> Inr (h\<lparr>send := (send h)(client := ch)\<rparr>, [Unregister client]))))"

text \<open>
  The \<open>select\<close> that \<open>Client.Send\<close>, \<open>Client.processJSONRPCMessage\<close> and
  \<open>Client.sendJSONRPCError\<close> (internal/websocket/client.go) end with: the message is
  queued, or dropped when the channel is full.
\<close>

definition Send :: "Hub \<Rightarrow> Client \<Rightarrow> message \<Rightarrow> fault + Hub" where
  "Send h c msg =
     (case trySend (send h c) msg of
        Sent ch \<Rightarrow> Inr (h\<lparr>send := (send h)(c := ch)\<rparr>)
      | Full \<Rightarrow> Inr h
      | SendOnClosed \<Rightarrow> Inl (Panic ''send on closed channel''))"

definition sendJSONRPCError ::
  "(Response \<Rightarrow> string option) \<Rightarrow> Hub \<Rightarrow> Client \<Rightarrow> gvalue option \<Rightarrow> Error \<Rightarrow> string
     \<Rightarrow> fault + Hub" where
  "sendJSONRPCError marshal h c ident rpcError details =
     (let err = (if details \<noteq> []
                 then NewErrorWithData (err_Code rpcError) (err_Message rpcError)
                        (Some (GString details))
                 else rpcError);
          response = NewErrorResponse err ident
      in case marshal response of
           None \<Rightarrow> Inr h
         | Some responseBytes \<Rightarrow>
            (case trySend (send h c) responseBytes of
               Sent ch \<Rightarrow> Inr (h\<lparr>send := (send h)(c := ch)\<rparr>)
             | Full \<Rightarrow> Inr h
             | SendOnClosed \<Rightarrow> Inl (Panic ''send on closed channel'')))"

definition processJSONRPCMessage ::
  "(string \<Rightarrow> Request option) \<Rightarrow> (Response \<Rightarrow> string option) \<Rightarrow> Router option
     \<Rightarrow> Hub \<Rightarrow> Client \<Rightarrow> message \<Rightarrow> fault + Hub" where
  "processJSONRPCMessage unmarshal marshal jsonrpcRouter h c msg =
     (case jsonrpcRouter of
        None \<Rightarrow> sendJSONRPCError marshal h c None ErrInternal ''JSON-RPC router not available''
      | Some router \<Rightarrow>
         (case RouteJSON unmarshal marshal router msg of
            (bytes, Some err) \<Rightarrow> sendJSONRPCError marshal h c None ErrInternal err
          | (None, None) \<Rightarrow> Inr h
          | (Some responseBytes, None) \<Rightarrow>
             (case trySend (send h c) responseBytes of
                Sent ch \<Rightarrow> Inr (h\<lparr>send := (send h)(c := ch)\<rparr>)
              | Full \<Rightarrow> Inr h
              | SendOnClosed \<Rightarrow> Inl (Panic ''send on closed channel''))))"

text \<open>A channel that is open and full, one that is open and has room, and the hub
  after a message has been put at the end of the queue of a client.\<close>

definition isFull :: "chan \<Rightarrow> bool" where
  "isFull ch \<longleftrightarrow> \<not> closed ch \<and> cap ch \<le> length (buf ch)"

definition hasRoom :: "chan \<Rightarrow> bool" where
  "hasRoom ch \<longleftrightarrow> \<not> closed ch \<and> length (buf ch) < cap ch"

definition queued :: "Hub \<Rightarrow> Client \<Rightarrow> message \<Rightarrow> Hub" where
  "queued h c msg = h\<lparr>send := (send h)(c := (send h c)\<lparr>buf := buf (send h c) @ [msg]\<rparr>)\<rparr>"


text \<open>
  What the two registries do keep: every entry of the session index is a registered
  client filed under its own session code.
\<close>

definition index_sound :: "Hub \<Rightarrow> bool" where
  "index_sound h \<longleftrightarrow>
     (\<forall>k c. hub_sessions h k = Some c \<longrightarrow> c \<in> clients h \<and> sessionCode c = k)"


section \<open>Properties of the session-code format\<close>








lemma char_eq_nat: "(c = d) = ((of_char c :: nat) = of_char d)"
  by simp

lemma toLower_nat: "(of_char (toLower c) :: nat) = (if isUpper c then of_char c + 32 else of_char c)"
  by (simp add: toLower_def isUpper_def)



lemma isASCII_map_toLower: "isASCII (map toLower s) = isASCII s"
  by (induction s) (auto simp: isASCII_def toLower_nat isUpper_def)


















section \<open>Properties of the session manager\<close>




text \<open>
  C10 says that every key of the session store is a well-formed, normalized code equal
  to the \<open>Code\<close> of the session stored under it, for any output of the generator. The
  retry loop of \<open>CreateSession\<close> leaves \<open>collision\<close> false and \<open>code\<close> unchecked
  when it ends without a candidate that passed the format check: with
  \<open>MaxRetries = -1\<close> the loop body never runs and a session is stored under the empty
  key, and with \<open>MaxRetries = 0\<close> and the malformed candidate \<open>happy-panda-100\<close> the
  session is stored under that candidate.
\<close>

theorem C10_CreateSession_stores_malformed_key:
  "fst (CreateSession (NewManager None) (\<lambda>_. ''happy-panda-42'') (\<lambda>_. False)
          (Some \<lparr>MaxRetries = -1, SessionTimeout = 3600, InitialData = None\<rparr>) 0)
     = Inr \<lparr>Code = [], CreatedAt = 0, LastAccessed = 0, Data = Map.empty\<rparr>
   \<and> sessions (snd (CreateSession (NewManager None) (\<lambda>_. ''happy-panda-42'') (\<lambda>_. False)
          (Some \<lparr>MaxRetries = -1, SessionTimeout = 3600, InitialData = None\<rparr>) 0)) []
     = Some \<lparr>Code = [], CreatedAt = 0, LastAccessed = 0, Data = Map.empty\<rparr>
   \<and> \<not> IsValidFormat []
   \<and> sessions (snd (CreateSession (NewManager None) (\<lambda>_. ''happy-panda-100'') (\<lambda>_. False)
          (Some \<lparr>MaxRetries = 0, SessionTimeout = 3600, InitialData = None\<rparr>) 0))
        ''happy-panda-100''
     = Some \<lparr>Code = ''happy-panda-100'', CreatedAt = 0, LastAccessed = 0, Data = Map.empty\<rparr>
   \<and> \<not> IsValidFormat ''happy-panda-100''"
proof -
  have i: "\<not> IsValidFormat ''happy-panda-100''" by code_simp
  have e: "\<not> IsValidFormat []" by (simp add: IsValidFormat_def)
  show ?thesis
    by (simp add: CreateSession_def NewManager_def Let_def i e)
qed

section \<open>Properties of the validation engine and the router\<close>

lemma RuneCount_Nil: "RuneCount [] = 0"
  by (subst RuneCount.simps) simp

lemma RuneCount_pos: "s \<noteq> [] \<Longrightarrow> 0 < RuneCount s"
  by (subst RuneCount.simps) simp

lemma ValidateVar_method_name: "name \<noteq> [] \<Longrightarrow> ValidateVar (FString name) [Required, Min 1] = None"
  using RuneCount_pos[of name] by (simp add: ValidateVar_def lib_Var_def)

lemma Route_id: "Route r req = Some resp \<Longrightarrow> resp_ID resp = req_ID req"
  by (auto simp: Route_def NewErrorResponse_def NewResponse_def Let_def
           split: option.splits prod.splits if_splits)

lemma Route_code: "Route r req = Some resp \<Longrightarrow> resp_Error resp = None \<or> (\<exists>e. resp_Error resp = Some e \<and> err_Code e \<in> {InvalidRequest, MethodNotFound, InvalidParams, InternalError})"
  by (auto simp: Route_def NewErrorResponse_def NewResponse_def Let_def createValidationError_def createParamsError_def createInternalError_def NewErrorWithData_def ErrMethodNotFound_def
           split: option.splits prod.splits if_splits verror.splits list.splits)

lemma Route_request_responds: "\<not> IsNotification req \<Longrightarrow> \<exists>resp. Route r req = Some resp"
  by (auto simp: Route_def Let_def split: option.splits prod.splits if_splits)

lemma ValidateRequest_None: "ValidateRequest req = None \<longleftrightarrow> req_JSONRPCVersion req = ''2.0'' \<and> Method req \<noteq> []"
proof (cases "Method req = []")
  case True
  then show ?thesis
    by (auto simp: ValidateRequest_def Validate_def Request_fields_def lib_Struct_def lib_Var_def
        split: list.splits)
next
  case False
  then have "Suc 0 \<le> RuneCount (Method req)"
    using RuneCount_pos[of "Method req"] by simp
  with False show ?thesis
    by (auto simp: ValidateRequest_def Validate_def Request_fields_def lib_Struct_def lib_Var_def
        split: list.splits)
qed

lemma Route_notification: "IsNotification req \<Longrightarrow> ValidateRequest req = None \<Longrightarrow> Route r req = None"
  by (simp add: Route_def)

lemma find_filter: "find P xs = (case filter P xs of [] \<Rightarrow> None | x # _ \<Rightarrow> Some x)"
  by (induction xs) auto

lemma lib_Var_violations:
  "lib_Var (fname f) (fvalue f) (frules f) =
     (case filter (\<lambda>r. \<not> rule_ok r (fvalue f)) (frules f) of
        [] \<Rightarrow> [] | r # _ \<Rightarrow> [violationError (f, r)])"
  by (simp add: lib_Var_def find_filter violationError_def split: list.splits)

lemma lib_Struct_first:
  "violations s \<noteq> [] \<Longrightarrow>
     \<exists>rest. lib_Struct s = violationError (hd (violations s)) # rest"
proof (induction s)
  case Nil
  then show ?case by (simp add: violations_def)
next
  case (Cons f fs)
  show ?case
  proof (cases "filter (\<lambda>r. \<not> rule_ok r (fvalue f)) (frules f)")
    case Nil
    with Cons show ?thesis
      by (simp add: violations_def lib_Struct_def lib_Var_violations)
  next
    case (Cons r rs)
    then show ?thesis
      by (simp add: violations_def lib_Struct_def lib_Var_violations)
  qed
qed

lemma Validate_first:
  assumes "violations s \<noteq> []"
  shows "Validate s = Some (ValidationErrors
           [\<lparr>Field = fname (fst (hd (violations s))), Tag = tagOf (snd (hd (violations s))),
             Value = fvalue (fst (hd (violations s))), Param = paramOf (snd (hd (violations s))),
             Message = buildErrorMessage (violationError (hd (violations s)))\<rparr>])"
proof -
  from lib_Struct_first[OF assms] obtain rest
    where "lib_Struct s = violationError (hd (violations s)) # rest" by blast
  then show ?thesis
    by (simp add: Validate_def customErr_def violationError_def)
qed

lemma Route_params_error:
  assumes "ValidateRequest request = None" "\<not> IsNotification request"
    "methods r (Method request) = Some methodInfo" "ValidateParams methodInfo"
    "ParamsSchema methodInfo = Some schema" "Params request = Some raw" "schema raw = Inr s"
    "violations s \<noteq> []"
  shows "Route r request = Some (NewErrorResponse
           (NewErrorWithData InvalidParams ''Parameter validation failed''
              (Some (GString (buildErrorMessage (violationError (hd (violations s)))))))
           (req_ID request))"
  using assms Validate_first[OF assms(8)]
  by (simp add: Route_def validateParams_def createParamsError_def)

text \<open>
  C9: \<open>RegisterMethod\<close> returns an error exactly when the name is empty, the handler
  is nil or the name is already registered, \<open>UnregisterMethod\<close> exactly when the name
  is not registered, and a call that returns an error leaves the router, and so every
  existing entry, as it was.
\<close>

theorem C9_registry_failures:
  "(fst (RegisterMethod r name h info) \<noteq> None \<longleftrightarrow>
      name = [] \<or> h = None \<or> methods r name \<noteq> None)
   \<and> (fst (RegisterMethod r name h info) \<noteq> None \<longrightarrow> snd (RegisterMethod r name h info) = r)
   \<and> (fst (UnregisterMethod r name) \<noteq> None \<longleftrightarrow> methods r name = None)
   \<and> (fst (UnregisterMethod r name) \<noteq> None \<longrightarrow> snd (UnregisterMethod r name) = r)"
proof -
  have reg: "(fst (RegisterMethod r name h info) \<noteq> None \<longleftrightarrow>
      name = [] \<or> h = None \<or> methods r name \<noteq> None)
   \<and> (fst (RegisterMethod r name h info) \<noteq> None \<longrightarrow> snd (RegisterMethod r name h info) = r)"
  proof (cases "name = []")
    case True
    then show ?thesis by (simp add: RegisterMethod_def)
  next
    case False
    then show ?thesis
      using ValidateVar_method_name[OF False]
      by (cases h) (auto simp add: RegisterMethod_def Let_def)
  qed
  have unreg: "(fst (UnregisterMethod r name) \<noteq> None \<longleftrightarrow> methods r name = None)
   \<and> (fst (UnregisterMethod r name) \<noteq> None \<longrightarrow> snd (UnregisterMethod r name) = r)"
    by (simp add: UnregisterMethod_def)
  from reg unreg show ?thesis by blast
qed


theorem C9_registry_failures_witness:
  "fst (RegisterMethod \<lparr>methods = [''ping'' \<mapsto> emptyMethodInfo (\<lambda>p. Returned None None)]\<rparr>
          ''ping'' (Some (\<lambda>p. Panicked ''x'')) None) \<noteq> None
   \<and> snd (RegisterMethod \<lparr>methods = [''ping'' \<mapsto> emptyMethodInfo (\<lambda>p. Returned None None)]\<rparr>
          ''ping'' (Some (\<lambda>p. Panicked ''x'')) None)
       = \<lparr>methods = [''ping'' \<mapsto> emptyMethodInfo (\<lambda>p. Returned None None)]\<rparr>
   \<and> fst (UnregisterMethod \<lparr>methods = [''ping'' \<mapsto> emptyMethodInfo (\<lambda>p. Returned None None)]\<rparr>
          ''pong'') \<noteq> None
   \<and> snd (UnregisterMethod \<lparr>methods = [''ping'' \<mapsto> emptyMethodInfo (\<lambda>p. Returned None None)]\<rparr>
          ''pong'')
       = \<lparr>methods = [''ping'' \<mapsto> emptyMethodInfo (\<lambda>p. Returned None None)]\<rparr>"
proof -
  let ?r = "\<lparr>methods = [''ping'' \<mapsto> emptyMethodInfo (\<lambda>p. Returned None None)]\<rparr>"
  have a: "methods ?r ''ping'' \<noteq> None" by simp
  have b: "methods ?r ''pong'' = None" by simp
  from C9_registry_failures[where r = ?r and name = "''ping''" and h = "Some (\<lambda>p. Panicked ''x'')"
      and info = None] a
  have c: "fst (RegisterMethod ?r ''ping'' (Some (\<lambda>p. Panicked ''x'')) None) \<noteq> None"
    "snd (RegisterMethod ?r ''ping'' (Some (\<lambda>p. Panicked ''x'')) None) = ?r" by blast+
  from C9_registry_failures[where r = ?r and name = "''pong''" and h = None and info = None] b
  have d: "fst (UnregisterMethod ?r ''pong'') \<noteq> None" "snd (UnregisterMethod ?r ''pong'') = ?r"
    by blast+
  from c d show ?thesis by blast
qed

text \<open>
  C7: a response that \<open>Route\<close> returns carries the id of the request, whether it is
  the success response or an error response with one of the codes InvalidRequest,
  MethodNotFound, InvalidParams and InternalError; every request that is not a
  notification gets a response; and for bytes that do not parse, \<open>RouteJSON\<close> returns
  the encoding of the ParseError response, whose id is null.
\<close>

theorem C7_response_id:
  "(Route r req = Some resp \<longrightarrow>
      resp_ID resp = req_ID req
      \<and> (resp_Error resp = None
          \<or> (\<exists>e. resp_Error resp = Some e
                 \<and> err_Code e \<in> {InvalidRequest, MethodNotFound, InvalidParams, InternalError})))
   \<and> (\<not> IsNotification req \<longrightarrow> (\<exists>resp'. Route r req = Some resp'))
   \<and> (unmarshal bytes = None \<longrightarrow>
        fst (RouteJSON unmarshal marshal r bytes) = marshal (NewErrorResponse ErrParse None)
        \<and> resp_ID (NewErrorResponse ErrParse None) = None
        \<and> resp_Error (NewErrorResponse ErrParse None) = Some ErrParse
        \<and> err_Code ErrParse = ParseError)"
proof -
  have "unmarshal bytes = None \<Longrightarrow>
          fst (RouteJSON unmarshal marshal r bytes) = marshal (NewErrorResponse ErrParse None)"
    by (simp add: RouteJSON_def split: option.splits)
  moreover have "resp_ID (NewErrorResponse ErrParse None) = None"
    "resp_Error (NewErrorResponse ErrParse None) = Some ErrParse" "err_Code ErrParse = ParseError"
    by (simp_all add: NewErrorResponse_def ErrParse_def)
  ultimately show ?thesis
    using Route_id[of r req resp] Route_code[of r req resp] Route_request_responds[of req r]
    by blast
qed

theorem C7_response_id_witness:
  "Route \<lparr>methods = [''ping'' \<mapsto> emptyMethodInfo (\<lambda>p. Returned (Some (Plain (GString ''pong''))) None)]\<rparr>
      \<lparr>req_JSONRPCVersion = ''2.0'', Method = ''ping'', Params = None, req_ID = Some (GNumber 7)\<rparr>
     = Some (NewResponse (Some (Plain (GString ''pong''))) (Some (GNumber 7)))
   \<and> resp_ID (NewResponse (Some (Plain (GString ''pong''))) (Some (GNumber 7))) = Some (GNumber 7)
   \<and> fst (RouteJSON (\<lambda>b. None) (\<lambda>resp. Some ''encoded'') NewRouter ''{'') = Some ''encoded''"
proof -
  let ?r = "\<lparr>methods = [''ping'' \<mapsto> emptyMethodInfo (\<lambda>p. Returned (Some (Plain (GString ''pong''))) None)]\<rparr>"
  let ?q = "\<lparr>req_JSONRPCVersion = ''2.0'', Method = ''ping'', Params = None, req_ID = Some (GNumber 7)\<rparr>"
  let ?p = "NewResponse (Some (Plain (GString ''pong''))) (Some (GNumber 7))"
  have v: "ValidateRequest ?q = None" by (simp add: ValidateRequest_None)
  have w: "ValidateResponse ?p = None"
    by (simp add: ValidateResponse_def Validate_def Response_fields_def NewResponse_def
        Version_def lib_Struct_def lib_Var_def)
  have a: "Route ?r ?q = Some ?p"
    by (simp add: Route_def v w IsNotification_def emptyMethodInfo_def callHandler_def)
  have b: "(\<lambda>b::string. None :: Request option) ''{'' = None" by simp
  from C7_response_id[where r = ?r and req = ?q and resp = ?p
      and unmarshal = "\<lambda>b. None" and bytes = "''{''" and marshal = "\<lambda>resp. Some ''encoded''"
      and r = ?r] a b
  have "resp_ID ?p = Some (GNumber 7)" by simp
  moreover from C7_response_id[where r = NewRouter and req = ?q and resp = ?p
      and unmarshal = "\<lambda>b. None" and bytes = "''{''" and marshal = "\<lambda>resp. Some ''encoded''"] b
  have "fst (RouteJSON (\<lambda>b. None) (\<lambda>resp. Some ''encoded'') NewRouter ''{'') = Some ''encoded''"
    by simp
  ultimately show ?thesis using a by simp
qed

text \<open>
  C2, as stated: a notification never gets a response, even when its envelope fails
  validation. \<open>Route\<close> validates the envelope before it looks at the id, so a
  notification with the version \<open>1.0\<close> gets the InvalidRequest response with a null
  id, and \<open>RouteJSON\<close> returns its bytes.
\<close>

theorem C2_counterexample:
  "IsNotification \<lparr>req_JSONRPCVersion = ''1.0'', Method = ''ping'', Params = None, req_ID = None\<rparr>
   \<and> Route NewRouter
         \<lparr>req_JSONRPCVersion = ''1.0'', Method = ''ping'', Params = None, req_ID = None\<rparr>
       = Some \<lparr>resp_JSONRPCVersion = ''2.0'', Result = None,
                resp_Error = Some \<lparr>err_Code = - 32600, err_Message = ''Request validation failed'',
                   err_Data = Some (GString (''field '' @ [CHR 0x27] @ ''jsonrpc'' @ [CHR 0x27]
                      @ '' must equal '' @ [CHR 0x27] @ ''2.0'' @ [CHR 0x27] @ '', got ''
                      @ [CHR 0x27] @ ''1.0'' @ [CHR 0x27]))\<rparr>,
                resp_ID = None\<rparr>
   \<and> fst (RouteJSON
           (\<lambda>b. Some \<lparr>req_JSONRPCVersion = ''1.0'', Method = ''ping'', Params = None, req_ID = None\<rparr>)
           (\<lambda>resp. Some ''encoded'') NewRouter ''bytes'') = Some ''encoded''"
  by (simp add: IsNotification_def Route_def RouteJSON_def ValidateRequest_def Validate_def
      Request_fields_def lib_Struct_def lib_Var_def customErr_def buildErrorMessage_def
      quoted_def showVal_def createValidationError_def NewErrorWithData_def NewErrorResponse_def
      InvalidRequest_def Version_def NewRouter_def)

text \<open>
  C2, amended: a notification whose envelope is valid, that is with the version
  \<open>2.0\<close> and a method that is not empty, gets no response, whatever the router,
  also when the method is unknown or its params fail the schema: \<open>Route\<close> returns nil
  and \<open>RouteJSON\<close> returns nil bytes and no error. A notification whose envelope
  fails validation gets the InvalidRequest error response with a null id.
\<close>

theorem C2_notification_no_response:
  "(IsNotification req \<and> req_JSONRPCVersion req = ''2.0'' \<and> Method req \<noteq> [] \<longrightarrow>
      Route r req = None
      \<and> (unmarshal bytes = Some req \<longrightarrow> RouteJSON unmarshal marshal r bytes = (None, None)))
   \<and> (IsNotification req \<and> \<not> (req_JSONRPCVersion req = ''2.0'' \<and> Method req \<noteq> []) \<longrightarrow>
      (\<exists>e. Route r req = Some (NewErrorResponse e None) \<and> err_Code e = InvalidRequest))"
proof -
  have a: "IsNotification req \<and> req_JSONRPCVersion req = ''2.0'' \<and> Method req \<noteq> [] \<Longrightarrow>
             Route r req = None"
    using Route_notification[of req r] ValidateRequest_None[of req] by simp
  have b: "IsNotification req \<and> req_JSONRPCVersion req = ''2.0'' \<and> Method req \<noteq> [] \<Longrightarrow>
             unmarshal bytes = Some req \<Longrightarrow> RouteJSON unmarshal marshal r bytes = (None, None)"
    using a by (simp add: RouteJSON_def)
  have c: "IsNotification req \<and> \<not> (req_JSONRPCVersion req = ''2.0'' \<and> Method req \<noteq> []) \<Longrightarrow>
             \<exists>e. Route r req = Some (NewErrorResponse e None) \<and> err_Code e = InvalidRequest"
  proof -
    assume h: "IsNotification req \<and> \<not> (req_JSONRPCVersion req = ''2.0'' \<and> Method req \<noteq> [])"
    then obtain err where "ValidateRequest req = Some err"
      using ValidateRequest_None[of req] by (cases "ValidateRequest req") auto
    with h show ?thesis
      by (auto simp: Route_def IsNotification_def createValidationError_def NewErrorWithData_def
          split: verror.splits list.splits)
  qed
  from a b c show ?thesis by blast
qed

theorem C2_notification_no_response_witness:
  "Route NewRouter \<lparr>req_JSONRPCVersion = ''2.0'', Method = ''unknown'', Params = None, req_ID = None\<rparr>
     = None
   \<and> RouteJSON
        (\<lambda>b. Some \<lparr>req_JSONRPCVersion = ''2.0'', Method = ''unknown'', Params = None, req_ID = None\<rparr>)
        (\<lambda>resp. Some ''encoded'') NewRouter ''bytes'' = (None, None)
   \<and> (\<exists>e. Route NewRouter
              \<lparr>req_JSONRPCVersion = ''2.0'', Method = [], Params = None, req_ID = None\<rparr>
            = Some (NewErrorResponse e None) \<and> err_Code e = InvalidRequest)"
proof -
  let ?q = "\<lparr>req_JSONRPCVersion = ''2.0'', Method = ''unknown'', Params = None, req_ID = None\<rparr>"
  let ?b = "\<lparr>req_JSONRPCVersion = ''2.0'', Method = [], Params = None, req_ID = None\<rparr>"
  have n: "IsNotification ?q" "IsNotification ?b" by (simp_all add: IsNotification_def)
  from C2_notification_no_response[where req = ?q and r = NewRouter and unmarshal = "\<lambda>b. Some ?q"
      and marshal = "\<lambda>resp. Some ''encoded''" and bytes = "''bytes''"] n
  have a: "Route NewRouter ?q = None"
    "RouteJSON (\<lambda>b. Some ?q) (\<lambda>resp. Some ''encoded'') NewRouter ''bytes'' = (None, None)"
    by simp_all
  from C2_notification_no_response[where req = ?b and r = NewRouter] n
  have "\<exists>e. Route NewRouter ?b = Some (NewErrorResponse e None) \<and> err_Code e = InvalidRequest"
    by simp
  with a show ?thesis by blast
qed

text \<open>
  C8: for a value that violates two or more rules, \<open>Validate\<close> returns exactly one
  structured error, that of the first violated rule, with its field, tag, value,
  parameter and message; the error object built from it carries that message alone; and
  a request whose params, read into the schema of its method, are such a value gets the
  InvalidParams response with that message as its data.
\<close>

theorem C8_fast_fail:
  "2 \<le> length (violations s) \<longrightarrow>
     Validate s = Some (ValidationErrors
        [\<lparr>Field = fname (fst (hd (violations s))), Tag = tagOf (snd (hd (violations s))),
          Value = fvalue (fst (hd (violations s))), Param = paramOf (snd (hd (violations s))),
          Message = buildErrorMessage (violationError (hd (violations s)))\<rparr>])
     \<and> (\<forall>err. Validate s = Some err \<longrightarrow>
           createParamsError err
             = \<lparr>err_Code = InvalidParams, err_Message = ''Parameter validation failed'',
                err_Data = Some (GString (buildErrorMessage (violationError (hd (violations s)))))\<rparr>)
     \<and> (ValidateRequest request = None \<and> \<not> IsNotification request
          \<and> methods r (Method request) = Some methodInfo \<and> ValidateParams methodInfo
          \<and> ParamsSchema methodInfo = Some schema \<and> Params request = Some raw
          \<and> schema raw = Inr s \<longrightarrow>
        Route r request = Some (NewErrorResponse
           \<lparr>err_Code = InvalidParams, err_Message = ''Parameter validation failed'',
            err_Data = Some (GString (buildErrorMessage (violationError (hd (violations s)))))\<rparr>
           (req_ID request)))"
proof
  assume "2 \<le> length (violations s)"
  then have ne: "violations s \<noteq> []" by auto
  note v = Validate_first[OF ne]
  have p: "\<forall>err. Validate s = Some err \<longrightarrow>
           createParamsError err
             = \<lparr>err_Code = InvalidParams, err_Message = ''Parameter validation failed'',
                err_Data = Some (GString (buildErrorMessage (violationError (hd (violations s)))))\<rparr>"
    by (simp add: v createParamsError_def NewErrorWithData_def)
  have q: "ValidateRequest request = None \<and> \<not> IsNotification request
          \<and> methods r (Method request) = Some methodInfo \<and> ValidateParams methodInfo
          \<and> ParamsSchema methodInfo = Some schema \<and> Params request = Some raw
          \<and> schema raw = Inr s \<longrightarrow>
        Route r request = Some (NewErrorResponse
           \<lparr>err_Code = InvalidParams, err_Message = ''Parameter validation failed'',
            err_Data = Some (GString (buildErrorMessage (violationError (hd (violations s)))))\<rparr>
           (req_ID request))"
    using Route_params_error[of request r methodInfo schema raw s] ne
    by (simp add: NewErrorWithData_def)
  from v p q show "Validate s = Some (ValidationErrors
        [\<lparr>Field = fname (fst (hd (violations s))), Tag = tagOf (snd (hd (violations s))),
          Value = fvalue (fst (hd (violations s))), Param = paramOf (snd (hd (violations s))),
          Message = buildErrorMessage (violationError (hd (violations s)))\<rparr>])
     \<and> (\<forall>err. Validate s = Some err \<longrightarrow>
           createParamsError err
             = \<lparr>err_Code = InvalidParams, err_Message = ''Parameter validation failed'',
                err_Data = Some (GString (buildErrorMessage (violationError (hd (violations s)))))\<rparr>)
     \<and> (ValidateRequest request = None \<and> \<not> IsNotification request
          \<and> methods r (Method request) = Some methodInfo \<and> ValidateParams methodInfo
          \<and> ParamsSchema methodInfo = Some schema \<and> Params request = Some raw
          \<and> schema raw = Inr s \<longrightarrow>
        Route r request = Some (NewErrorResponse
           \<lparr>err_Code = InvalidParams, err_Message = ''Parameter validation failed'',
            err_Data = Some (GString (buildErrorMessage (violationError (hd (violations s)))))\<rparr>
           (req_ID request)))"
    by blast
qed

theorem C8_fast_fail_witness:
  "2 \<le> length (violations
      [\<lparr>fname = ''sessionCode'', fvalue = FString ''happy-panda-100'', frules = [Required, SessionCode]\<rparr>,
       \<lparr>fname = ''name'', fvalue = FString [], frules = [Required, Min 2]\<rparr>])
   \<and> Validate
      [\<lparr>fname = ''sessionCode'', fvalue = FString ''happy-panda-100'', frules = [Required, SessionCode]\<rparr>,
       \<lparr>fname = ''name'', fvalue = FString [], frules = [Required, Min 2]\<rparr>]
     = Some (ValidationErrors
         [\<lparr>Field = ''sessionCode'', Tag = ''sessioncode'', Value = FString ''happy-panda-100'',
           Param = [],
           Message = ''field '' @ [CHR 0x27] @ ''sessionCode'' @ [CHR 0x27]
             @ '' must be a valid session code in format '' @ [CHR 0x27]
             @ ''adjective-noun-number'' @ [CHR 0x27] @ '' (e.g., '' @ [CHR 0x27]
             @ ''happy-panda-42'' @ [CHR 0x27] @ ''), got '' @ [CHR 0x27] @ ''happy-panda-100''
             @ [CHR 0x27]\<rparr>])
   \<and> Route
       \<lparr>methods = [''join'' \<mapsto>
          \<lparr>Handler = (\<lambda>p. Returned None None),
           ParamsSchema = Some (\<lambda>raw. Inr
             [\<lparr>fname = ''sessionCode'', fvalue = FString ''happy-panda-100'',
               frules = [Required, SessionCode]\<rparr>,
              \<lparr>fname = ''name'', fvalue = FString [], frules = [Required, Min 2]\<rparr>]),
           ResultSchema = None, Description = [], ValidateParams = True,
           ValidateResult = False\<rparr>]\<rparr>
       \<lparr>req_JSONRPCVersion = ''2.0'', Method = ''join'', Params = Some ''{}'',
        req_ID = Some (GString ''a'')\<rparr>
     = Some (NewErrorResponse
         \<lparr>err_Code = - 32602, err_Message = ''Parameter validation failed'',
          err_Data = Some (GString (''field '' @ [CHR 0x27] @ ''sessionCode'' @ [CHR 0x27]
             @ '' must be a valid session code in format '' @ [CHR 0x27]
             @ ''adjective-noun-number'' @ [CHR 0x27] @ '' (e.g., '' @ [CHR 0x27]
             @ ''happy-panda-42'' @ [CHR 0x27] @ ''), got '' @ [CHR 0x27] @ ''happy-panda-100''
             @ [CHR 0x27]))\<rparr>
         (Some (GString ''a'')))"
proof -
  let ?f = "\<lparr>fname = ''sessionCode'', fvalue = FString ''happy-panda-100'',
             frules = [Required, SessionCode]\<rparr>"
  let ?g = "\<lparr>fname = ''name'', fvalue = FString [], frules = [Required, Min 2]\<rparr>"
  let ?s = "[?f, ?g]"
  let ?mi = "\<lparr>Handler = (\<lambda>p. Returned None None), ParamsSchema = Some (\<lambda>raw. Inr ?s),
              ResultSchema = None, Description = [], ValidateParams = True,
              ValidateResult = False\<rparr>"
  let ?r = "\<lparr>methods = [''join'' \<mapsto> ?mi]\<rparr>"
  let ?q = "\<lparr>req_JSONRPCVersion = ''2.0'', Method = ''join'', Params = Some ''{}'',
             req_ID = Some (GString ''a'')\<rparr>"
  have i: "\<not> validateSessionCode ''happy-panda-100''" by code_simp
  have v: "violations ?s = [(?f, SessionCode), (?g, Required), (?g, Min 2)]"
    by (simp add: violations_def i RuneCount_Nil)
  have len: "2 \<le> length (violations ?s)" by (simp add: v)
  have m: "buildErrorMessage (violationError (hd (violations ?s)))
             = ''field '' @ [CHR 0x27] @ ''sessionCode'' @ [CHR 0x27]
             @ '' must be a valid session code in format '' @ [CHR 0x27]
             @ ''adjective-noun-number'' @ [CHR 0x27] @ '' (e.g., '' @ [CHR 0x27]
             @ ''happy-panda-42'' @ [CHR 0x27] @ ''), got '' @ [CHR 0x27] @ ''happy-panda-100''
             @ [CHR 0x27]"
    by (simp add: v violationError_def buildErrorMessage_def quoted_def showVal_def)
  have h: "ValidateRequest ?q = None \<and> \<not> IsNotification ?q
          \<and> methods ?r (Method ?q) = Some ?mi \<and> ValidateParams ?mi
          \<and> ParamsSchema ?mi = Some (\<lambda>raw. Inr ?s) \<and> Params ?q = Some ''{}''
          \<and> (\<lambda>raw::string. (Inr ?s :: string + sfield list)) ''{}'' = Inr ?s"
    by (simp add: ValidateRequest_None IsNotification_def)
  from C8_fast_fail[where s = ?s and request = ?q and r = ?r and methodInfo = ?mi
      and schema = "\<lambda>raw. Inr ?s" and raw = "''{}''"] len h
  have "Validate ?s = Some (ValidationErrors
        [\<lparr>Field = fname (fst (hd (violations ?s))), Tag = tagOf (snd (hd (violations ?s))),
          Value = fvalue (fst (hd (violations ?s))), Param = paramOf (snd (hd (violations ?s))),
          Message = buildErrorMessage (violationError (hd (violations ?s)))\<rparr>])"
    and "Route ?r ?q = Some (NewErrorResponse
           \<lparr>err_Code = InvalidParams, err_Message = ''Parameter validation failed'',
            err_Data = Some (GString (buildErrorMessage (violationError (hd (violations ?s)))))\<rparr>
           (req_ID ?q))"
    by blast+
  then show ?thesis
    unfolding m using len by (simp add: v InvalidParams_def)
qed

section \<open>Properties of the hub\<close>

lemma unregisterClient_no_fault: "\<exists>h'. unregisterClient h c = Inr h'"
  by (auto simp: unregisterClient_def tryRecv_def closeChan_def Let_def split: list.splits)

lemma index_sound_register: "index_sound h \<Longrightarrow> index_sound (registerClient h c)"
  by (auto simp: index_sound_def registerClient_def)

lemma index_sound_unregister:
  "index_sound h \<Longrightarrow> unregisterClient h c = Inr h' \<Longrightarrow> index_sound h'"
  by (auto simp: index_sound_def unregisterClient_def Let_def
           split: if_splits recv_result.splits option.splits)

lemma index_sound_NewHub: "index_sound NewHub"
  by (simp add: index_sound_def NewHub_def)

lemma broadcastLoop_registries:
  "broadcastLoop h cs msg = Inr h' \<Longrightarrow> clients h' = clients h \<and> hub_sessions h' = hub_sessions h"
  by (induction cs arbitrary: h) (auto split: send_result.splits option.splits)

lemma index_sound_Run: "index_sound h \<Longrightarrow> Run h rs = Inr h' \<Longrightarrow> index_sound h'"
proof (induction h rs rule: Run.induct)
  case (1 h)
  then show ?case by simp
next
  case (2 h client rs)
  then show ?case by (simp add: index_sound_register)
next
  case (3 h client rs)
  then show ?case
    by (auto split: sum.splits dest: index_sound_unregister)
next
  case (4 h msg order rs)
  from "4.prems" obtain h1 where b: "broadcastMessage h order msg = Inr h1"
    and r: "Run h1 rs = Inr h'"
    by (auto split: sum.splits)
  from b have "clients h1 = clients h \<and> hub_sessions h1 = hub_sessions h"
    using broadcastLoop_registries by (simp add: broadcastMessage_def split: if_splits)
  with "4.prems"(1) have "index_sound h1" by (simp add: index_sound_def)
  with "4.IH" b r show ?case by simp
qed

text \<open>
  C1 says that after any sequence of register and unregister requests the keys of the
  session index are the session codes of the registered clients. Two clients register
  under the code \<open>happy-panda-42\<close>, the second taking the place of the first in the
  index; then the first unregisters. \<open>unregisterClient\<close> deletes the index entry of the
  code without looking at whose entry it is, so the second client stays registered with
  no entry in the index.
\<close>

theorem C1_unregister_superseded_client:
  "Run NewHub
     [Register \<lparr>cid = 1, sessionCode = ''happy-panda-42''\<rparr>,
      Register \<lparr>cid = 2, sessionCode = ''happy-panda-42''\<rparr>,
      Unregister \<lparr>cid = 1, sessionCode = ''happy-panda-42''\<rparr>]
   = Inr \<lparr>clients = {\<lparr>cid = 2, sessionCode = ''happy-panda-42''\<rparr>},
          hub_sessions = Map.empty,
          send = (send NewHub)(\<lparr>cid = 1, sessionCode = ''happy-panda-42''\<rparr> :=
                    \<lparr>buf = [], cap = 256, closed = True\<rparr>)\<rparr>
   \<and> dom (Map.empty :: string \<rightharpoonup> Client)
       \<noteq> sessionCode ` {\<lparr>cid = 2, sessionCode = ''happy-panda-42''\<rparr>}"
  by (auto simp add: NewHub_def registerClient_def unregisterClient_def tryRecv_def
      closeChan_def Let_def)

text \<open>
  C3 says that the send channel of a client is closed exactly once by the time its
  unregistration has been processed, also when messages are still buffered in it. A
  client registers, one message is queued for it, and it unregisters:
  \<open>unregisterClient\<close> takes the receive that succeeds for a sign that the channel is
  closed, so it consumes the buffered message and leaves the channel open.
\<close>

theorem C3_unregister_leaves_channel_open:
  "(case Run NewHub [Register \<lparr>cid = 1, sessionCode = ''happy-panda-42''\<rparr>] of
      Inl f \<Rightarrow> False
    | Inr h1 \<Rightarrow>
       (case Send h1 \<lparr>cid = 1, sessionCode = ''happy-panda-42''\<rparr> ''welcome'' of
          Inl f \<Rightarrow> False
        | Inr h2 \<Rightarrow>
           buf (send h2 \<lparr>cid = 1, sessionCode = ''happy-panda-42''\<rparr>) = [''welcome'']
           \<and> (case Run h2 [Unregister \<lparr>cid = 1, sessionCode = ''happy-panda-42''\<rparr>] of
                 Inl f \<Rightarrow> False
               | Inr h3 \<Rightarrow>
                  \<lparr>cid = 1, sessionCode = ''happy-panda-42''\<rparr> \<notin> clients h3
                  \<and> hub_sessions h3 ''happy-panda-42'' = None
                  \<and> buf (send h3 \<lparr>cid = 1, sessionCode = ''happy-panda-42''\<rparr>) = []
                  \<and> \<not> closed (send h3 \<lparr>cid = 1, sessionCode = ''happy-panda-42''\<rparr>))))"
  by (simp add: NewHub_def registerClient_def unregisterClient_def tryRecv_def closeChan_def
      Send_def trySend_def Let_def)

text \<open>
  A broadcast when the channels of all registered clients are open and have room, and a
  broadcast when they are all open and one of them is full: whatever the order of the
  iteration, the first puts the message in every queue, and the second closes the first
  full channel it meets and then waits for itself.
\<close>

lemma broadcastLoop_all_room:
  "distinct cs \<Longrightarrow> \<forall>d\<in>set cs. hasRoom (send h d) \<Longrightarrow>
     broadcastLoop h cs msg
       = Inr (h\<lparr>send := (\<lambda>d. if d \<in> set cs then (send h d)\<lparr>buf := buf (send h d) @ [msg]\<rparr>
                               else send h d)\<rparr>)"
proof (induction cs arbitrary: h)
  case Nil
  then show ?case by simp
next
  case (Cons c cs)
  let ?h = "h\<lparr>send := (send h)(c := (send h c)\<lparr>buf := buf (send h c) @ [msg]\<rparr>)\<rparr>"
  from Cons.prems have s: "trySend (send h c) msg = Sent ((send h c)\<lparr>buf := buf (send h c) @ [msg]\<rparr>)"
    by (simp add: hasRoom_def trySend_def)
  from Cons.prems have "distinct cs" "\<forall>d\<in>set cs. hasRoom (send ?h d)"
    by auto
  from Cons.IH[OF this] have "broadcastLoop ?h cs msg
       = Inr (?h\<lparr>send := (\<lambda>d. if d \<in> set cs then (send ?h d)\<lparr>buf := buf (send ?h d) @ [msg]\<rparr>
                               else send ?h d)\<rparr>)" .
  moreover from Cons.prems have "(\<lambda>d. if d \<in> set cs then (send ?h d)\<lparr>buf := buf (send ?h d) @ [msg]\<rparr>
                               else send ?h d)
      = (\<lambda>d. if d \<in> set (c # cs) then (send h d)\<lparr>buf := buf (send h d) @ [msg]\<rparr>
                               else send h d)"
    by (auto simp: fun_eq_iff)
  ultimately show ?case using s by simp
qed

lemma broadcastLoop_full_blocks:
  "\<exists>c\<in>set cs. isFull (send h c) \<Longrightarrow> \<forall>d\<in>set cs. \<not> closed (send h d) \<Longrightarrow>
     broadcastLoop h cs msg = Inl Blocked"
proof (induction cs arbitrary: h)
  case Nil
  then show ?case by simp
next
  case (Cons c cs)
  show ?case
  proof (cases "isFull (send h c)")
    case True
    then show ?thesis
      by (simp add: isFull_def trySend_def closeChan_def)
  next
    case False
    let ?h = "h\<lparr>send := (send h)(c := (send h c)\<lparr>buf := buf (send h c) @ [msg]\<rparr>)\<rparr>"
    from False Cons.prems have s: "trySend (send h c) msg = Sent ((send h c)\<lparr>buf := buf (send h c) @ [msg]\<rparr>)"
      by (auto simp add: isFull_def trySend_def)
    from False Cons.prems have "\<exists>d\<in>set cs. isFull (send ?h d)"
      by (auto simp: isFull_def)
    moreover from Cons.prems have "\<forall>d\<in>set cs. \<not> closed (send ?h d)"
      by auto
    ultimately have "broadcastLoop ?h cs msg = Inl Blocked"
      by (rule Cons.IH)
    with s show ?thesis by simp
  qed
qed

lemma broadcast_full_blocks:
  "isSnapshot h order \<Longrightarrow> c \<in> clients h \<Longrightarrow> isFull (send h c) \<Longrightarrow>
     \<forall>d\<in>clients h. \<not> closed (send h d) \<Longrightarrow>
     Run h [Broadcast msg order] = Inl Blocked"
proof -
  assume a: "isSnapshot h order" "c \<in> clients h" "isFull (send h c)"
    "\<forall>d\<in>clients h. \<not> closed (send h d)"
  from a have "\<exists>c\<in>set order. isFull (send h c)" "\<forall>d\<in>set order. \<not> closed (send h d)"
    by (auto simp add: isSnapshot_def)
  then have "broadcastLoop h order msg = Inl Blocked"
    by (rule broadcastLoop_full_blocks)
  with a show ?thesis
    by (simp add: broadcastMessage_def)
qed

text \<open>
  C4, as stated: every failure to enqueue evicts the connection. \<open>Client.Send\<close> on a
  full channel drops the message: the hub and the channel are as before, the client is
  registered and its channel is open.
\<close>

theorem C4_counterexample:
  "Send (registerClient
           (NewHub\<lparr>send := (send NewHub)(\<lparr>cid = 1, sessionCode = ''happy-panda-42''\<rparr> :=
                       \<lparr>buf = replicate 256 ''filler'', cap = 256, closed = False\<rparr>)\<rparr>)
           \<lparr>cid = 1, sessionCode = ''happy-panda-42''\<rparr>)
        \<lparr>cid = 1, sessionCode = ''happy-panda-42''\<rparr> ''dropped message''
     = Inr (registerClient
           (NewHub\<lparr>send := (send NewHub)(\<lparr>cid = 1, sessionCode = ''happy-panda-42''\<rparr> :=
                       \<lparr>buf = replicate 256 ''filler'', cap = 256, closed = False\<rparr>)\<rparr>)
           \<lparr>cid = 1, sessionCode = ''happy-panda-42''\<rparr>)
   \<and> \<lparr>cid = 1, sessionCode = ''happy-panda-42''\<rparr>
       \<in> clients (registerClient
           (NewHub\<lparr>send := (send NewHub)(\<lparr>cid = 1, sessionCode = ''happy-panda-42''\<rparr> :=
                       \<lparr>buf = replicate 256 ''filler'', cap = 256, closed = False\<rparr>)\<rparr>)
           \<lparr>cid = 1, sessionCode = ''happy-panda-42''\<rparr>)
   \<and> \<not> closed (send (registerClient
           (NewHub\<lparr>send := (send NewHub)(\<lparr>cid = 1, sessionCode = ''happy-panda-42''\<rparr> :=
                       \<lparr>buf = replicate 256 ''filler'', cap = 256, closed = False\<rparr>)\<rparr>)
           \<lparr>cid = 1, sessionCode = ''happy-panda-42''\<rparr>)
         \<lparr>cid = 1, sessionCode = ''happy-panda-42''\<rparr>)"
  by (simp add: NewHub_def registerClient_def Send_def trySend_def)

text \<open>
  C4, amended: every enqueue is an attempt that does not wait. On a channel that is open
  and has room, \<open>Client.Send\<close> and \<open>SendToSession\<close> queue the message,
  \<open>processJSONRPCMessage\<close> queues the bytes of the response (and nothing for a
  notification) and \<open>sendJSONRPCError\<close> the bytes of the error response; a broadcast
  queues the message for every registered client when the channels of all of them are
  open and have room, whatever the order of the iteration. On a channel that is open and
  full, \<open>SendToSession\<close> closes the channel and hands the client to the event loop,
  which removes it from both registries; \<open>Client.Send\<close>, the response of
  \<open>processJSONRPCMessage\<close> and \<open>sendJSONRPCError\<close> drop the message and change
  nothing, so the client stays registered with its channel open.
\<close>

theorem C4_backpressure:
  "(hasRoom (send h c) \<longrightarrow>
      Send h c msg = Inr (queued h c msg)
      \<and> (hub_sessions h code = Some c \<longrightarrow> SendToSession h code msg = Inr (queued h c msg, []))
      \<and> (marshal (NewErrorResponse
                    (if details \<noteq> []
                     then NewErrorWithData (err_Code rpcError) (err_Message rpcError)
                            (Some (GString details))
                     else rpcError) ident) = Some bytes \<longrightarrow>
           sendJSONRPCError marshal h c ident rpcError details = Inr (queued h c bytes))
      \<and> (RouteJSON unmarshal marshal router msg = (Some bytes, None) \<longrightarrow>
           processJSONRPCMessage unmarshal marshal (Some router) h c msg = Inr (queued h c bytes))
      \<and> (RouteJSON unmarshal marshal router msg = (None, None) \<longrightarrow>
           processJSONRPCMessage unmarshal marshal (Some router) h c msg = Inr h)
      \<and> (RouteJSON unmarshal marshal router msg = (nobytes, Some err) \<longrightarrow>
           processJSONRPCMessage unmarshal marshal (Some router) h c msg
             = sendJSONRPCError marshal h c None ErrInternal err)
      \<and> processJSONRPCMessage unmarshal marshal None h c msg
            = sendJSONRPCError marshal h c None ErrInternal ''JSON-RPC router not available'')
   \<and> (isSnapshot h order \<and> (\<forall>d\<in>clients h. hasRoom (send h d)) \<longrightarrow>
        broadcastMessage h order msg
          = Inr (h\<lparr>send := (\<lambda>d. if d \<in> clients h
                                then (send h d)\<lparr>buf := buf (send h d) @ [msg]\<rparr>
                                else send h d)\<rparr>))
   \<and> (isFull (send h c) \<longrightarrow>
      Send h c msg = Inr h
      \<and> processJSONRPCMessage unmarshal marshal jsonrpcRouter h c msg = Inr h
      \<and> sendJSONRPCError marshal h c ident rpcError details = Inr h
      \<and> (hub_sessions h code = Some c \<and> c \<in> clients h \<and> sessionCode c = code \<longrightarrow>
           (\<exists>h1 h2. SendToSession h code msg = Inr (h1, [Unregister c])
                \<and> closed (send h1 c)
                \<and> Run h1 [Unregister c] = Inr h2
                \<and> c \<notin> clients h2 \<and> hub_sessions h2 code = None \<and> closed (send h2 c))))"
proof -
  have room: "hasRoom (send h c) \<Longrightarrow>
      Send h c msg = Inr (queued h c msg)
      \<and> (hub_sessions h code = Some c \<longrightarrow> SendToSession h code msg = Inr (queued h c msg, []))
      \<and> (marshal (NewErrorResponse
                    (if details \<noteq> []
                     then NewErrorWithData (err_Code rpcError) (err_Message rpcError)
                            (Some (GString details))
                     else rpcError) ident) = Some bytes \<longrightarrow>
           sendJSONRPCError marshal h c ident rpcError details = Inr (queued h c bytes))
      \<and> (RouteJSON unmarshal marshal router msg = (Some bytes, None) \<longrightarrow>
           processJSONRPCMessage unmarshal marshal (Some router) h c msg = Inr (queued h c bytes))"
    by (simp add: hasRoom_def Send_def SendToSession_def sendJSONRPCError_def
        processJSONRPCMessage_def trySend_def queued_def Let_def)
  have paths: "(RouteJSON unmarshal marshal router msg = (None, None) \<longrightarrow>
           processJSONRPCMessage unmarshal marshal (Some router) h c msg = Inr h)
      \<and> (RouteJSON unmarshal marshal router msg = (nobytes, Some err) \<longrightarrow>
           processJSONRPCMessage unmarshal marshal (Some router) h c msg
             = sendJSONRPCError marshal h c None ErrInternal err)
      \<and> processJSONRPCMessage unmarshal marshal None h c msg
            = sendJSONRPCError marshal h c None ErrInternal ''JSON-RPC router not available''"
    by (simp add: processJSONRPCMessage_def split: option.splits)
  have bc: "isSnapshot h order \<and> (\<forall>d\<in>clients h. hasRoom (send h d)) \<Longrightarrow>
        broadcastMessage h order msg
          = Inr (h\<lparr>send := (\<lambda>d. if d \<in> clients h
                                then (send h d)\<lparr>buf := buf (send h d) @ [msg]\<rparr>
                                else send h d)\<rparr>)"
    using broadcastLoop_all_room[of order h msg]
    by (auto simp add: broadcastMessage_def isSnapshot_def)
  have drop1: "isFull (send h c) \<Longrightarrow> Send h c msg = Inr h"
    by (simp add: isFull_def Send_def trySend_def)
  have drop2: "isFull (send h c) \<Longrightarrow> sendJSONRPCError marshal h c i e d = Inr h" for i e d
    by (simp add: isFull_def sendJSONRPCError_def trySend_def Let_def split: option.splits)
  have drop3: "isFull (send h c) \<Longrightarrow>
      processJSONRPCMessage unmarshal marshal jsonrpcRouter h c msg = Inr h"
    using drop2
    by (auto simp add: processJSONRPCMessage_def isFull_def trySend_def
        split: option.splits prod.splits)
  have evict: "isFull (send h c) \<Longrightarrow>
      hub_sessions h code = Some c \<and> c \<in> clients h \<and> sessionCode c = code \<Longrightarrow>
      \<exists>h1 h2. SendToSession h code msg = Inr (h1, [Unregister c])
                \<and> closed (send h1 c)
                \<and> Run h1 [Unregister c] = Inr h2
                \<and> c \<notin> clients h2 \<and> hub_sessions h2 code = None \<and> closed (send h2 c)"
    by (auto simp add: isFull_def SendToSession_def trySend_def closeChan_def
        unregisterClient_def tryRecv_def Let_def split: list.splits)
  from room paths bc drop1 drop2 drop3 evict show ?thesis by blast
qed

theorem C4_backpressure_witness:
  "Send (registerClient
           (NewHub\<lparr>send := (send NewHub)(\<lparr>cid = 1, sessionCode = ''happy-panda-42''\<rparr> :=
                       \<lparr>buf = replicate 256 ''filler'', cap = 256, closed = False\<rparr>)\<rparr>)
           \<lparr>cid = 1, sessionCode = ''happy-panda-42''\<rparr>)
        \<lparr>cid = 1, sessionCode = ''happy-panda-42''\<rparr> ''overflow''
     = Inr (registerClient
           (NewHub\<lparr>send := (send NewHub)(\<lparr>cid = 1, sessionCode = ''happy-panda-42''\<rparr> :=
                       \<lparr>buf = replicate 256 ''filler'', cap = 256, closed = False\<rparr>)\<rparr>)
           \<lparr>cid = 1, sessionCode = ''happy-panda-42''\<rparr>)
   \<and> (\<exists>h1 h2.
        SendToSession (registerClient
           (NewHub\<lparr>send := (send NewHub)(\<lparr>cid = 1, sessionCode = ''happy-panda-42''\<rparr> :=
                       \<lparr>buf = replicate 256 ''filler'', cap = 256, closed = False\<rparr>)\<rparr>)
           \<lparr>cid = 1, sessionCode = ''happy-panda-42''\<rparr>) ''happy-panda-42'' ''overflow''
          = Inr (h1, [Unregister \<lparr>cid = 1, sessionCode = ''happy-panda-42''\<rparr>])
        \<and> Run h1 [Unregister \<lparr>cid = 1, sessionCode = ''happy-panda-42''\<rparr>] = Inr h2
        \<and> \<lparr>cid = 1, sessionCode = ''happy-panda-42''\<rparr> \<notin> clients h2
        \<and> hub_sessions h2 ''happy-panda-42'' = None
        \<and> closed (send h2 \<lparr>cid = 1, sessionCode = ''happy-panda-42''\<rparr>))
   \<and> SendToSession (registerClient NewHub \<lparr>cid = 1, sessionCode = ''happy-panda-42''\<rparr>)
        ''happy-panda-42'' ''hello''
     = Inr ((registerClient NewHub \<lparr>cid = 1, sessionCode = ''happy-panda-42''\<rparr>)
              \<lparr>send := (send NewHub)(\<lparr>cid = 1, sessionCode = ''happy-panda-42''\<rparr> :=
                          \<lparr>buf = [''hello''], cap = 256, closed = False\<rparr>)\<rparr>, [])
   \<and> processJSONRPCMessage
        (\<lambda>b. Some \<lparr>req_JSONRPCVersion = ''2.0'', Method = ''ping'', Params = None,
                     req_ID = (if b = ''call'' then Some (GNumber 7) else None)\<rparr>)
        (\<lambda>resp. Some ''encoded'')
        (Some \<lparr>methods = [''ping'' \<mapsto>
                  emptyMethodInfo (\<lambda>p. Returned (Some (Plain (GString ''pong''))) None)]\<rparr>)
        (registerClient NewHub \<lparr>cid = 1, sessionCode = ''happy-panda-42''\<rparr>)
        \<lparr>cid = 1, sessionCode = ''happy-panda-42''\<rparr> ''call''
     = Inr ((registerClient NewHub \<lparr>cid = 1, sessionCode = ''happy-panda-42''\<rparr>)
              \<lparr>send := (send NewHub)(\<lparr>cid = 1, sessionCode = ''happy-panda-42''\<rparr> :=
                          \<lparr>buf = [''encoded''], cap = 256, closed = False\<rparr>)\<rparr>)
   \<and> processJSONRPCMessage
        (\<lambda>b. Some \<lparr>req_JSONRPCVersion = ''2.0'', Method = ''ping'', Params = None,
                     req_ID = (if b = ''call'' then Some (GNumber 7) else None)\<rparr>)
        (\<lambda>resp. Some ''encoded'')
        (Some \<lparr>methods = [''ping'' \<mapsto>
                  emptyMethodInfo (\<lambda>p. Returned (Some (Plain (GString ''pong''))) None)]\<rparr>)
        (registerClient NewHub \<lparr>cid = 1, sessionCode = ''happy-panda-42''\<rparr>)
        \<lparr>cid = 1, sessionCode = ''happy-panda-42''\<rparr> ''notify''
     = Inr (registerClient NewHub \<lparr>cid = 1, sessionCode = ''happy-panda-42''\<rparr>)
   \<and> sendJSONRPCError (\<lambda>resp. Some ''encoded'')
        (registerClient NewHub \<lparr>cid = 1, sessionCode = ''happy-panda-42''\<rparr>)
        \<lparr>cid = 1, sessionCode = ''happy-panda-42''\<rparr> None ErrInternal ''no router''
     = Inr ((registerClient NewHub \<lparr>cid = 1, sessionCode = ''happy-panda-42''\<rparr>)
              \<lparr>send := (send NewHub)(\<lparr>cid = 1, sessionCode = ''happy-panda-42''\<rparr> :=
                          \<lparr>buf = [''encoded''], cap = 256, closed = False\<rparr>)\<rparr>)
   \<and> broadcastMessage
        (registerClient (registerClient NewHub \<lparr>cid = 1, sessionCode = ''happy-panda-42''\<rparr>)
           \<lparr>cid = 2, sessionCode = ''calm-otter-7''\<rparr>)
        [\<lparr>cid = 2, sessionCode = ''calm-otter-7''\<rparr>, \<lparr>cid = 1, sessionCode = ''happy-panda-42''\<rparr>]
        ''news''
     = Inr ((registerClient (registerClient NewHub \<lparr>cid = 1, sessionCode = ''happy-panda-42''\<rparr>)
               \<lparr>cid = 2, sessionCode = ''calm-otter-7''\<rparr>)
              \<lparr>send := (send NewHub)
                 (\<lparr>cid = 1, sessionCode = ''happy-panda-42''\<rparr> :=
                     \<lparr>buf = [''news''], cap = 256, closed = False\<rparr>,
                  \<lparr>cid = 2, sessionCode = ''calm-otter-7''\<rparr> :=
                     \<lparr>buf = [''news''], cap = 256, closed = False\<rparr>)\<rparr>)"
proof -
  let ?c = "\<lparr>cid = 1, sessionCode = ''happy-panda-42''\<rparr>"
  let ?d = "\<lparr>cid = 2, sessionCode = ''calm-otter-7''\<rparr>"
  let ?h = "registerClient
           (NewHub\<lparr>send := (send NewHub)(?c :=
                       \<lparr>buf = replicate 256 ''filler'', cap = 256, closed = False\<rparr>)\<rparr>) ?c"
  let ?g = "registerClient NewHub ?c"
  let ?g2 = "registerClient ?g ?d"
  let ?u = "\<lambda>b. Some \<lparr>req_JSONRPCVersion = ''2.0'', Method = ''ping'', Params = None,
                     req_ID = (if b = ''call'' then Some (GNumber 7) else None)\<rparr>"
  let ?m = "\<lambda>resp :: Response. Some ''encoded''"
  let ?r = "\<lparr>methods = [''ping'' \<mapsto>
                  emptyMethodInfo (\<lambda>p. Returned (Some (Plain (GString ''pong''))) None)]\<rparr>"
  let ?q = "\<lparr>req_JSONRPCVersion = ''2.0'', Method = ''ping'', Params = None,
             req_ID = Some (GNumber 7)\<rparr>"
  let ?n = "\<lparr>req_JSONRPCVersion = ''2.0'', Method = ''ping'', Params = None,
             req_ID = None\<rparr>"
  let ?p = "NewResponse (Some (Plain (GString ''pong''))) (Some (GNumber 7))"
  have full: "isFull (send ?h ?c)"
    by (simp add: isFull_def registerClient_def NewHub_def)
  have reg: "hub_sessions ?h ''happy-panda-42'' = Some ?c \<and> ?c \<in> clients ?h
             \<and> sessionCode ?c = ''happy-panda-42''"
    by (simp add: registerClient_def NewHub_def)
  have room: "hasRoom (send ?g ?c)"
    by (simp add: hasRoom_def registerClient_def NewHub_def)
  have reg': "hub_sessions ?g ''happy-panda-42'' = Some ?c"
    by (simp add: registerClient_def NewHub_def)
  have q: "queued ?g ?c x
             = ?g\<lparr>send := (send NewHub)(?c := \<lparr>buf = [x], cap = 256, closed = False\<rparr>)\<rparr>" for x
    by (simp add: queued_def registerClient_def NewHub_def)
  have vq: "ValidateRequest ?q = None" by (simp add: ValidateRequest_None)
  have vn: "ValidateRequest ?n = None" by (simp add: ValidateRequest_None)
  have vp: "ValidateResponse ?p = None"
    by (simp add: ValidateResponse_def Validate_def Response_fields_def NewResponse_def
        Version_def lib_Struct_def lib_Var_def)
  have rq: "Route ?r ?q = Some ?p"
    by (simp add: Route_def vq vp IsNotification_def emptyMethodInfo_def callHandler_def)
  have rn: "Route ?r ?n = None"
    by (simp add: Route_def vn IsNotification_def)
  have jq: "RouteJSON ?u ?m ?r ''call'' = (Some ''encoded'', None)"
    using rq by (simp add: RouteJSON_def)
  have jn: "RouteJSON ?u ?m ?r ''notify'' = (None, None)"
    using rn by (simp add: RouteJSON_def)
  have me: "?m (NewErrorResponse
                    (if ''no router'' \<noteq> []
                     then NewErrorWithData (err_Code ErrInternal) (err_Message ErrInternal)
                            (Some (GString ''no router''))
                     else ErrInternal) None) = Some ''encoded''"
    by simp
  have snap: "isSnapshot ?g2 [?d, ?c] \<and> (\<forall>x\<in>clients ?g2. hasRoom (send ?g2 x))"
    by (auto simp add: isSnapshot_def hasRoom_def registerClient_def NewHub_def)
  from C4_backpressure[where h = ?h and c = ?c and code = "''happy-panda-42''"
      and msg = "''overflow''"] full reg
  have a: "Send ?h ?c ''overflow'' = Inr ?h"
    and b: "\<exists>h1 h2. SendToSession ?h ''happy-panda-42'' ''overflow'' = Inr (h1, [Unregister ?c])
                \<and> closed (send h1 ?c)
                \<and> Run h1 [Unregister ?c] = Inr h2
                \<and> ?c \<notin> clients h2 \<and> hub_sessions h2 ''happy-panda-42'' = None
                \<and> closed (send h2 ?c)"
    by blast+
  from C4_backpressure[where h = ?g and c = ?c and code = "''happy-panda-42''"
      and msg = "''hello''"] room reg'
  have "SendToSession ?g ''happy-panda-42'' ''hello'' = Inr (queued ?g ?c ''hello'', [])"
    by blast
  then have c: "SendToSession ?g ''happy-panda-42'' ''hello''
     = Inr (?g\<lparr>send := (send NewHub)(?c := \<lparr>buf = [''hello''], cap = 256, closed = False\<rparr>)\<rparr>, [])"
    by (simp only: q)
  from C4_backpressure[where h = ?g and c = ?c and msg = "''call''" and unmarshal = ?u
      and marshal = ?m and router = ?r and bytes = "''encoded''"] room jq
  have "processJSONRPCMessage ?u ?m (Some ?r) ?g ?c ''call'' = Inr (queued ?g ?c ''encoded'')"
    by blast
  then have d: "processJSONRPCMessage ?u ?m (Some ?r) ?g ?c ''call''
     = Inr (?g\<lparr>send := (send NewHub)(?c := \<lparr>buf = [''encoded''], cap = 256, closed = False\<rparr>)\<rparr>)"
    by (simp only: q)
  from C4_backpressure[where h = ?g and c = ?c and msg = "''notify''" and unmarshal = ?u
      and marshal = ?m and router = ?r] room jn
  have e: "processJSONRPCMessage ?u ?m (Some ?r) ?g ?c ''notify'' = Inr ?g"
    by blast
  from C4_backpressure[where h = ?g and c = ?c and marshal = ?m and ident = None
      and rpcError = ErrInternal and details = "''no router''" and bytes = "''encoded''"] room me
  have "sendJSONRPCError ?m ?g ?c None ErrInternal ''no router'' = Inr (queued ?g ?c ''encoded'')"
    by blast
  then have f: "sendJSONRPCError ?m ?g ?c None ErrInternal ''no router''
     = Inr (?g\<lparr>send := (send NewHub)(?c := \<lparr>buf = [''encoded''], cap = 256, closed = False\<rparr>)\<rparr>)"
    by (simp only: q)
  from C4_backpressure[where h = ?g2 and order = "[?d, ?c]" and msg = "''news''"] snap
  have "broadcastMessage ?g2 [?d, ?c] ''news''
          = Inr (?g2\<lparr>send := (\<lambda>x. if x \<in> clients ?g2
                                then (send ?g2 x)\<lparr>buf := buf (send ?g2 x) @ [''news'']\<rparr>
                                else send ?g2 x)\<rparr>)"
    by blast
  moreover have "(\<lambda>x. if x \<in> clients ?g2
                                then (send ?g2 x)\<lparr>buf := buf (send ?g2 x) @ [''news'']\<rparr>
                                else send ?g2 x)
       = (send NewHub)(?c := \<lparr>buf = [''news''], cap = 256, closed = False\<rparr>,
                       ?d := \<lparr>buf = [''news''], cap = 256, closed = False\<rparr>)"
    by (auto simp add: fun_eq_iff registerClient_def NewHub_def)
  ultimately have g: "broadcastMessage ?g2 [?d, ?c] ''news''
     = Inr (?g2\<lparr>send := (send NewHub)(?c := \<lparr>buf = [''news''], cap = 256, closed = False\<rparr>,
                       ?d := \<lparr>buf = [''news''], cap = 256, closed = False\<rparr>)\<rparr>)"
    by (simp only:)
  from a b c d e f g show ?thesis by blast
qed

end
